theory Spec2Isabelle
  imports Complex_Main "HOL-Library.Sublist" "HOL-Library.AList"
begin

section \<open>JavaScript strings and values\<close>

text \<open>
  The program is \<^verbatim>\<open>src/addon.ts\<close>. The file holds three revisions of the module,
  one after the other: a patch sketch (lines 1-222), the revision with the channel-link
  cache and the fallback stream handler (lines 223-1200), and the revision with the
  live-TV stream assembler (lines 1201-2006). Every definition below names the lines it
  embeds.

  A JavaScript string is modelled as \<^typ>\<open>string\<close>: the list of the bytes of its UTF-8
  encoding. All the characters the program tests for are ASCII.
\<close>

definition startsWith :: "string \<Rightarrow> string \<Rightarrow> bool" where
  "startsWith s p = prefix p s"

definition endsWith :: "string \<Rightarrow> string \<Rightarrow> bool" where
  "endsWith s p = suffix p s"

text \<open>\<^verbatim>\<open>s.includes(p)\<close>: \<open>p\<close> occurs in \<open>s\<close> as a contiguous substring.\<close>

fun str_includes :: "string \<Rightarrow> string \<Rightarrow> bool" where
  "str_includes [] p = (p = [])"
| "str_includes (x # xs) p = (prefix p (x # xs) \<or> str_includes xs p)"

text \<open>\<^verbatim>\<open>s.split(c)\<close> for a one-character separator: never the empty list.\<close>

fun split :: "char \<Rightarrow> string \<Rightarrow> string list" where
  "split c [] = [[]]"
| "split c (x # xs) =
     (if x = c then [] # split c xs
      else (case split c xs of
              [] \<Rightarrow> [[x]]
            | p # ps \<Rightarrow> (x # p) # ps))"

text \<open>
  \<^verbatim>\<open>s.replace(p, '')\<close> with a string pattern removes the first occurrence of \<open>p\<close>.
\<close>

fun remove_first :: "string \<Rightarrow> string \<Rightarrow> string" where
  "remove_first p [] = []"
| "remove_first p (x # xs) =
     (if prefix p (x # xs) then drop (length p) (x # xs) else x # remove_first p xs)"

text \<open>Truthiness of a string and of an optional string property.\<close>

definition truthy :: "string option \<Rightarrow> bool" where
  "truthy v = (case v of None \<Rightarrow> False | Some s \<Rightarrow> s \<noteq> [])"

text \<open>\<^verbatim>\<open>a || b\<close> on optional strings.\<close>

definition or_else :: "string option \<Rightarrow> string option \<Rightarrow> string option" where
  "or_else a b = (if truthy a then a else b)"

text \<open>\<^verbatim>\<open>a || ''\<close>.\<close>

definition or_empty :: "string option \<Rightarrow> string" where
  "or_empty a = (case a of None \<Rightarrow> [] | Some s \<Rightarrow> s)"

section \<open>normalizeProxyUrl (lines 822-824 and 1519-1521)\<close>

text \<open>
  \<^verbatim>\<open>return url.endsWith('/') ? url.slice(0, -1) : url;\<close>
\<close>

definition normalizeProxyUrl :: "string \<Rightarrow> string" where
  "normalizeProxyUrl url = (if endsWith url ''/'' then butlast url else url)"

section \<open>Season and episode of a content id (lines 1040-1051 and 1854-1868)\<close>

text \<open>
  A JavaScript number as \<^verbatim>\<open>parseInt\<close> returns it: an integer or NaN. The rounding of
  integers beyond \<open>2^53\<close> to doubles is not modelled.
\<close>

datatype number = NaN | Num int

definition is_space :: "char \<Rightarrow> bool" where
  "is_space c = (c \<in> set [CHR 0x09, CHR 0x0A, CHR 0x0B, CHR 0x0C, CHR 0x0D, CHR 0x20])"

definition digit_val :: "char \<Rightarrow> nat option" where
  "digit_val c =
     (let n = (of_char c :: nat) in
      if 48 \<le> n \<and> n \<le> 57 then Some (n - 48)
      else if 97 \<le> n \<and> n \<le> 102 then Some (n - 87)
      else if 65 \<le> n \<and> n \<le> 70 then Some (n - 55)
      else None)"

text \<open>The longest prefix of digits of radix \<open>r\<close>, read into the accumulator.\<close>

fun digits_prefix :: "nat \<Rightarrow> string \<Rightarrow> (nat \<times> nat) \<Rightarrow> (nat \<times> nat)" where
  "digits_prefix r [] acc = acc"
| "digits_prefix r (c # cs) (n, k) =
     (case digit_val c of
        None \<Rightarrow> (n, k)
      | Some d \<Rightarrow> if d < r then digits_prefix r cs (n * r + d, Suc k) else (n, k))"

text \<open>
  \<^verbatim>\<open>parseInt(s)\<close> with no radix argument (ECMAScript 19.2.5): leading white space is
  dropped, then an optional sign, then \<^verbatim>\<open>0x\<close> or \<^verbatim>\<open>0X\<close> selects radix 16, then the
  longest prefix of digits is read; no digit gives NaN. Only ASCII white space is
  recognised here.
\<close>

definition parseInt :: "string \<Rightarrow> number" where
  "parseInt s =
     (let t = dropWhile is_space s;
          neg = startsWith t ''-'';
          u = (if startsWith t ''-'' \<or> startsWith t ''+'' then tl t else t);
          hex = (startsWith u ''0x'' \<or> startsWith u ''0X'');
          (n, k) = (if hex then digits_prefix 16 (drop 2 u) (0, 0)
                    else digits_prefix 10 u (0, 0))
      in if k = 0 then NaN else Num (if neg then - int n else int n))"

record 'n episode_ref =
  seasonNumber :: "'n option"
  episodeNumber :: "'n option"
  isMovie :: bool

text \<open>
  The block that both stream handlers run on an IMDB or TMDB id:
  \<^verbatim>\<open>
  let seasonNumber: number | null = null;
  let episodeNumber: number | null = null;
  let isMovie = false;
  const parts = id.split(':');
  if (parts.length === 1) { isMovie = true; }
  else if (parts.length === 2) { episodeNumber = parseInt(parts[1]); }
  else if (parts.length === 3) {
      seasonNumber = parseInt(parts[1]); episodeNumber = parseInt(parts[2]); }
  \<close>
  \<^verbatim>\<open>parseInt\<close> is a parameter, so that the result holds for whatever number it returns.
\<close>

definition parseSeasonEpisode :: "(string \<Rightarrow> 'n) \<Rightarrow> string \<Rightarrow> 'n episode_ref" where
  "parseSeasonEpisode pint ident =
     (let parts = split CHR '':'' ident in
      if length parts = 1 then
        \<lparr>seasonNumber = None, episodeNumber = None, isMovie = True\<rparr>
      else if length parts = 2 then
        \<lparr>seasonNumber = None, episodeNumber = Some (pint (parts ! 1)), isMovie = False\<rparr>
      else if length parts = 3 then
        \<lparr>seasonNumber = Some (pint (parts ! 1)), episodeNumber = Some (pint (parts ! 2)),
         isMovie = False\<rparr>
      else \<lparr>seasonNumber = None, episodeNumber = None, isMovie = False\<rparr>)"

text \<open>The ids the handlers treat as movie or series ids.\<close>

definition is_imdb_or_tmdb :: "string \<Rightarrow> bool" where
  "is_imdb_or_tmdb ident = (startsWith ident ''tt'' \<or> startsWith ident ''tmdb:'')"

section \<open>Values, exceptions and the platform\<close>

text \<open>
  A value as \<^verbatim>\<open>JSON.parse\<close> returns it, and as the \<^verbatim>\<open>any\<close>-typed argument of
  \<^verbatim>\<open>parseConfigFromArgs\<close> carries it. An object is the list of its own properties in
  insertion order. A number is the rational its literal denotes; the rounding to a
  double is not modelled.
\<close>

datatype jsval =
    JUndefined
  | JNull
  | JBool bool
  | JNum rat
  | JStr string
  | JArr "jsval list"
  | JObj "(string \<times> jsval) list"

datatype exn = SyntaxError | URIError | TypeError | Rejected string

text \<open>
  The built-in functions the module calls. Each one that can throw returns a sum, with
  \<open>Inl\<close> the exception. \<^verbatim>\<open>base64_utf8\<close> is \<^verbatim>\<open>Buffer.from(s, 'base64').toString('utf-8')\<close>.
\<close>

record platform =
  JSON_parse :: "string \<Rightarrow> exn + jsval"
  decodeURIComponent :: "string \<Rightarrow> exn + string"
  base64_utf8 :: "string \<Rightarrow> exn + string"

text \<open>ToBoolean.\<close>

fun js_truthy :: "jsval \<Rightarrow> bool" where
  "js_truthy JUndefined = False"
| "js_truthy JNull = False"
| "js_truthy (JBool b) = b"
| "js_truthy (JNum r) = (r \<noteq> 0)"
| "js_truthy (JStr s) = (s \<noteq> [])"
| "js_truthy (JArr xs) = True"
| "js_truthy (JObj kvs) = True"

text \<open>\<^verbatim>\<open>typeof v === 'object' && v !== null\<close>.\<close>

fun js_is_object :: "jsval \<Rightarrow> bool" where
  "js_is_object (JArr xs) = True"
| "js_is_object (JObj kvs) = True"
| "js_is_object v = False"

text \<open>
  \<^verbatim>\<open>v.k\<close> for a property \<open>k\<close> that no prototype defines: a TypeError on \<^verbatim>\<open>null\<close> and
  \<^verbatim>\<open>undefined\<close>, the own property of an object, \<^verbatim>\<open>undefined\<close> otherwise.
\<close>

fun get_prop :: "jsval \<Rightarrow> string \<Rightarrow> exn + jsval" where
  "get_prop JUndefined k = Inl TypeError"
| "get_prop JNull k = Inl TypeError"
| "get_prop (JObj kvs) k = Inr (case map_of kvs k of None \<Rightarrow> JUndefined | Some v \<Rightarrow> v)"
| "get_prop v k = Inr JUndefined"

text \<open>
  The values \<^verbatim>\<open>for (const ch of v)\<close> runs over: the elements of an array, the
  characters of a string, and a TypeError on everything else that \<^verbatim>\<open>JSON.parse\<close> returns.
\<close>

fun js_iterate :: "jsval \<Rightarrow> exn + jsval list" where
  "js_iterate (JArr xs) = Inr xs"
| "js_iterate (JStr s) = Inr (map (\<lambda>c. JStr [c]) s)"
| "js_iterate v = Inl TypeError"

section \<open>parseConfigFromArgs (lines 404-500)\<close>

text \<open>
  The decoder with the three steps. The revision of lines 1201-2006 has an earlier
  decoder (lines 1348-1366) with the URL step alone; the results on the base64 step are
  about the one of lines 404-500.
\<close>

text \<open>\<^verbatim>\<open>/^[A-Za-z0-9+\/=]+$/.test(s)\<close>\<close>

definition is_base64_char :: "char \<Rightarrow> bool" where
  "is_base64_char c =
     (let n = (of_char c :: nat) in
      (65 \<le> n \<and> n \<le> 90) \<or> (97 \<le> n \<and> n \<le> 122) \<or> (48 \<le> n \<and> n \<le> 57)
      \<or> c = CHR ''+'' \<or> c = CHR ''/'' \<or> c = CHR ''='')"

definition looks_base64 :: "string \<Rightarrow> bool" where
  "looks_base64 s = (s \<noteq> [] \<and> list_all is_base64_char s)"

text \<open>\<^verbatim>\<open>s.replace(/%3D/g, '=')\<close>\<close>

fun replace_3D :: "string \<Rightarrow> string" where
  "replace_3D (a # b # c # rest) =
     (if a = CHR ''%'' \<and> b = CHR ''3'' \<and> c = CHR ''D'' then CHR ''='' # replace_3D rest
      else a # replace_3D (b # c # rest))"
| "replace_3D s = s"

text \<open>\<^verbatim>\<open>s.replace(/=+$/, '')\<close>\<close>

definition strip_padding :: "string \<Rightarrow> string" where
  "strip_padding s = rev (dropWhile (\<lambda>c. c = CHR ''='') (rev s))"

text \<open>
  \<^verbatim>\<open>while (paddedBase64.length % 4 !== 0) { paddedBase64 += '='; }\<close>
\<close>

function pad4 :: "string \<Rightarrow> string" where
  "pad4 s = (if length s mod 4 \<noteq> 0 then pad4 (s @ ''='') else s)"
  by pat_completeness auto
termination
proof (relation "measure (\<lambda>s. (4 - length s mod 4) mod 4)")
  show "wf (measure (\<lambda>s::string. (4 - length s mod 4) mod 4))" by simp
next
  fix s :: string
  assume a: "length s mod 4 \<noteq> 0"
  have "length s mod 4 < 4" by simp
  then have "length s mod 4 = 1 \<or> length s mod 4 = 2 \<or> length s mod 4 = 3"
    using a by linarith
  then show "(s @ ''='', s) \<in> measure (\<lambda>s. (4 - length s mod 4) mod 4)"
    by (auto simp: mod_Suc)
qed

declare pad4.simps [simp del]

text \<open>
  The end of the first line of a text: \<open>.\<close> in a regular expression matches no line
  terminator (LF, CR, U+2028, U+2029).
\<close>

fun first_line :: "string \<Rightarrow> string" where
  "first_line [] = []"
| "first_line (c # cs) =
     (if c = CHR 0x0A \<or> c = CHR 0x0D
         \<or> prefix [CHR 0xE2, CHR 0x80, CHR 0xA8] (c # cs)
         \<or> prefix [CHR 0xE2, CHR 0x80, CHR 0xA9] (c # cs)
      then [] else c # first_line cs)"

text \<open>
  \<^verbatim>\<open>decoded.match(/({.*})/)\<close>: from the leftmost \<open>{\<close> that has a \<open>}\<close> after it on its
  line, up to the last \<open>}\<close> of that line.
\<close>

fun match_braces :: "string \<Rightarrow> string option" where
  "match_braces [] = None"
| "match_braces (c # cs) =
     (if c = CHR ''{'' \<and> CHR ''}'' \<in> set (first_line cs)
      then Some (c # rev (dropWhile (\<lambda>x. x \<noteq> CHR ''}'') (rev (first_line cs))))
      else match_braces cs)"

text \<open>
  Step 1 (lines 423-429): \<^verbatim>\<open>try { return JSON.parse(args) } catch { }\<close>. \<open>Some v\<close> is
  the value returned; \<open>None\<close> is the fall-through of the caught exception.
\<close>

definition step_direct :: "platform \<Rightarrow> string \<Rightarrow> jsval option" where
  "step_direct P args =
     (case JSON_parse P args of
        Inr parsed \<Rightarrow> Some parsed
      | Inl e \<Rightarrow> None)"

text \<open>
  Step 2 (lines 432-449). The pair is the value returned, if any, and \<^verbatim>\<open>decodedArgs\<close>,
  which keeps the value of \<^verbatim>\<open>args\<close> when \<^verbatim>\<open>decodeURIComponent\<close> throws.
\<close>

definition step_url :: "platform \<Rightarrow> string \<Rightarrow> jsval option \<times> string" where
  "step_url P args =
     (if str_includes args ''%'' then
        (case decodeURIComponent P args of
           Inl e \<Rightarrow> (None, args)
         | Inr decodedArgs \<Rightarrow>
             (case JSON_parse P decodedArgs of
                Inr parsed \<Rightarrow> (Some parsed, decodedArgs)
              | Inl innerError \<Rightarrow> (None, decodedArgs)))
      else (None, args))"

text \<open>
  Step 3 (lines 452-494). Every statement is inside the outer \<^verbatim>\<open>try\<close>, whose
  \<^verbatim>\<open>catch\<close> falls through.
\<close>

definition step_base64 :: "platform \<Rightarrow> string \<Rightarrow> jsval option" where
  "step_base64 P decodedArgs =
     (if startsWith decodedArgs ''eyJ'' \<or> looks_base64 decodedArgs then
        (let base64Fixed = strip_padding (replace_3D decodedArgs);
             paddedBase64 = pad4 base64Fixed
         in case base64_utf8 P paddedBase64 of
              Inl e \<Rightarrow> None
            | Inr decoded \<Rightarrow>
                if str_includes decoded ''{'' \<and> str_includes decoded ''}'' then
                  (case JSON_parse P decoded of
                     Inr parsed \<Rightarrow> Some parsed
                   | Inl jsonError \<Rightarrow>
                       (case match_braces decoded of
                          None \<Rightarrow> None
                        | Some extractedJson \<Rightarrow>
                            (case JSON_parse P extractedJson of
                               Inr parsed \<Rightarrow> Some parsed
                             | Inl extractError \<Rightarrow> None)))
                else None)
      else None)"

text \<open>The string case of \<^verbatim>\<open>parseConfigFromArgs\<close> (lines 419-497).\<close>

definition parse_config_string :: "platform \<Rightarrow> string \<Rightarrow> exn + jsval" where
  "parse_config_string P args =
     (case step_direct P args of
        Some parsed \<Rightarrow> Inr parsed
      | None \<Rightarrow>
          (case step_url P args of
             (Some parsed, decodedArgs) \<Rightarrow> Inr parsed
           | (None, decodedArgs) \<Rightarrow>
               (case step_base64 P decodedArgs of
                  Some parsed \<Rightarrow> Inr parsed
                | None \<Rightarrow> Inr (JObj []))))"

definition parseConfigFromArgs :: "platform \<Rightarrow> jsval \<Rightarrow> exn + jsval" where
  "parseConfigFromArgs P args =
     (if \<not> js_truthy args \<or> args = JStr [] \<or> args = JStr ''undefined'' \<or> args = JStr ''null''
      then Inr (JObj [])
      else if js_is_object args then Inr args
      else (case args of
              JStr s \<Rightarrow> parse_config_string P s
            | _ \<Rightarrow> Inr (JObj [])))"

section \<open>A model of the built-in functions\<close>

text \<open>
  \<^verbatim>\<open>JSON.parse\<close>, \<^verbatim>\<open>decodeURIComponent\<close>, \<^verbatim>\<open>encodeURIComponent\<close> and the base64
  decoding of \<^verbatim>\<open>Buffer\<close> belong to the platform, not to the module. The general
  results below hold for every \<^typ>\<open>platform\<close>; this model, written from ECMA-262,
  ECMA-404 and the decoder of Node.js, is the platform the concrete inputs run on.
\<close>

subsection \<open>JSON texts\<close>

text \<open>
  The UTF-8 bytes of a code unit, for the escape \<^verbatim>\<open>\uXXXX\<close> of a string literal. The
  two escapes of a surrogate pair are kept as two three-byte forms.
\<close>

definition utf8_bytes :: "nat \<Rightarrow> string" where
  "utf8_bytes n =
     (if n < 0x80 then [char_of n]
      else if n < 0x800 then [char_of (0xC0 + n div 0x40), char_of (0x80 + n mod 0x40)]
      else [char_of (0xE0 + n div 0x1000), char_of (0x80 + (n div 0x40) mod 0x40),
            char_of (0x80 + n mod 0x40)])"

definition is_json_ws :: "char \<Rightarrow> bool" where
  "is_json_ws c = (c = CHR 0x20 \<or> c = CHR 0x09 \<or> c = CHR 0x0A \<or> c = CHR 0x0D)"

definition is_digit :: "char \<Rightarrow> bool" where
  "is_digit c = (48 \<le> (of_char c :: nat) \<and> (of_char c :: nat) \<le> 57)"

text \<open>The characters of a string literal after its opening quote, and the rest of the text.\<close>

fun json_string :: "string \<Rightarrow> (string \<times> string) option" where
  "json_string [] = None"
| "json_string (c # cs) =
     (if c = CHR 0x22 then Some ([], cs)
      else if (of_char c :: nat) < 0x20 then None
      else if c = CHR 0x5C then
        (case cs of
           [] \<Rightarrow> None
         | e # r \<Rightarrow>
             if e = CHR ''u'' then
               (case r of
                  a # b # c' # d # r' \<Rightarrow>
                    (case (digit_val a, digit_val b, digit_val c', digit_val d) of
                       (Some x, Some y, Some z, Some w) \<Rightarrow>
                         map_option (\<lambda>(s, t). (utf8_bytes (((x * 16 + y) * 16 + z) * 16 + w) @ s, t))
                           (json_string r')
                     | _ \<Rightarrow> None)
                | _ \<Rightarrow> None)
             else
               (case map_of [(CHR 0x22, CHR 0x22), (CHR 0x5C, CHR 0x5C), (CHR ''/'', CHR ''/''),
                             (CHR ''b'', CHR 0x08), (CHR ''f'', CHR 0x0C), (CHR ''n'', CHR 0x0A),
                             (CHR ''r'', CHR 0x0D), (CHR ''t'', CHR 0x09)] e of
                  None \<Rightarrow> None
                | Some x \<Rightarrow> map_option (\<lambda>(s, t). (x # s, t)) (json_string r)))
      else map_option (\<lambda>(s, t). (c # s, t)) (json_string cs))"

text \<open>The longest prefix of decimal digits, and the rest.\<close>

definition json_digits :: "string \<Rightarrow> string \<times> string" where
  "json_digits s = (takeWhile is_digit s, dropWhile is_digit s)"

definition digits_nat :: "string \<Rightarrow> nat" where
  "digits_nat ds = foldl (\<lambda>n c. n * 10 + ((of_char c :: nat) - 48)) 0 ds"

text \<open>
  A number literal: \<^verbatim>\<open>-? (0 | [1-9][0-9]*) (. [0-9]+)? ([eE] [+-]? [0-9]+)?\<close>
\<close>

definition json_number :: "string \<Rightarrow> (rat \<times> string) option" where
  "json_number s =
     (let neg = startsWith s ''-'';
          s1 = (if neg then tl s else s);
          (ip, s2) = json_digits s1
      in if ip = [] \<or> (length ip > 1 \<and> hd ip = CHR ''0'') then None
         else
           (let (fp, s3) = (if startsWith s2 ''.'' then json_digits (tl s2) else ([], s2))
            in if startsWith s2 ''.'' \<and> fp = [] then None
               else
                 (let has_exp = (startsWith s3 ''e'' \<or> startsWith s3 ''E'');
                      s4 = (if has_exp then tl s3 else s3);
                      eneg = (has_exp \<and> startsWith s4 ''-'');
                      s5 = (if has_exp \<and> (startsWith s4 ''-'' \<or> startsWith s4 ''+'')
                            then tl s4 else s4);
                      (ep, s6) = (if has_exp then json_digits s5 else ([], s3))
                  in if has_exp \<and> ep = [] then None
                     else
                       (let m = (of_nat (digits_nat (ip @ fp)) :: rat) / 10 ^ length fp;
                            v = (if eneg then m / 10 ^ digits_nat ep else m * 10 ^ digits_nat ep)
                        in Some (if neg then - v else v, s6)))))"

text \<open>
  A value, the elements of an array after its first one, and the members of an object.
  The first argument bounds the number of calls; \<open>JSON_parse_node\<close> gives it the
  length of the text, which no parse can exceed, since every call but the first comes
  after a character has been read.
\<close>

fun json_value :: "nat \<Rightarrow> string \<Rightarrow> (jsval \<times> string) option"
  and json_elements :: "nat \<Rightarrow> jsval list \<Rightarrow> string \<Rightarrow> (jsval \<times> string) option"
  and json_members :: "nat \<Rightarrow> (string \<times> jsval) list \<Rightarrow> string \<Rightarrow> (jsval \<times> string) option"
where
  "json_value 0 s = None"
| "json_value (Suc n) s =
     (let t = dropWhile is_json_ws s in
      if startsWith t ''{'' then
        (if startsWith (dropWhile is_json_ws (tl t)) ''}''
         then Some (JObj [], tl (dropWhile is_json_ws (tl t)))
         else json_members n [] (tl t))
      else if startsWith t ''['' then
        (if startsWith (dropWhile is_json_ws (tl t)) '']''
         then Some (JArr [], tl (dropWhile is_json_ws (tl t)))
         else json_elements n [] (tl t))
      else if startsWith t [CHR 0x22] then
        map_option (\<lambda>(x, r). (JStr x, r)) (json_string (tl t))
      else if startsWith t ''true'' then Some (JBool True, drop 4 t)
      else if startsWith t ''false'' then Some (JBool False, drop 5 t)
      else if startsWith t ''null'' then Some (JNull, drop 4 t)
      else map_option (\<lambda>(x, r). (JNum x, r)) (json_number t))"
| "json_elements 0 acc s = None"
| "json_elements (Suc n) acc s =
     (case json_value n s of
        None \<Rightarrow> None
      | Some (v, r) \<Rightarrow>
          (let t = dropWhile is_json_ws r in
           if startsWith t '','' then json_elements n (acc @ [v]) (tl t)
           else if startsWith t '']'' then Some (JArr (acc @ [v]), tl t)
           else None))"
| "json_members 0 acc s = None"
| "json_members (Suc n) acc s =
     (let t = dropWhile is_json_ws s in
      if startsWith t [CHR 0x22] then
        (case json_string (tl t) of
           None \<Rightarrow> None
         | Some (k, r) \<Rightarrow>
             (let u = dropWhile is_json_ws r in
              if startsWith u '':'' then
                (case json_value n (tl u) of
                   None \<Rightarrow> None
                 | Some (v, r') \<Rightarrow>
                     (let w = dropWhile is_json_ws r' in
                      if startsWith w '','' then json_members n (AList.update k v acc) (tl w)
                      else if startsWith w ''}'' then Some (JObj (AList.update k v acc), tl w)
                      else None))
              else None))
      else None)"

definition JSON_parse_node :: "string \<Rightarrow> exn + jsval" where
  "JSON_parse_node s =
     (case json_value (Suc (length s)) s of
        None \<Rightarrow> Inl SyntaxError
      | Some (v, r) \<Rightarrow> if dropWhile is_json_ws r = [] then Inr v else Inl SyntaxError)"

text \<open>
  \<^verbatim>\<open>JSON.stringify\<close> on an object whose properties are strings, when no key and no value
  holds a character that the text has to escape (a quote, a backslash, a control
  character).
\<close>

definition needs_no_escape :: "string \<Rightarrow> bool" where
  "needs_no_escape s =
     list_all (\<lambda>c. c \<noteq> CHR 0x22 \<and> c \<noteq> CHR 0x5C \<and> 0x20 \<le> (of_char c :: nat)) s"

definition json_quote :: "string \<Rightarrow> string" where
  "json_quote s = CHR 0x22 # s @ [CHR 0x22]"

fun stringify_members :: "(string \<times> string) list \<Rightarrow> string" where
  "stringify_members [] = []"
| "stringify_members [(k, v)] = json_quote k @ '':'' @ json_quote v"
| "stringify_members ((k, v) # kvs) =
     json_quote k @ '':'' @ json_quote v @ '','' @ stringify_members kvs"

definition JSON_stringify :: "(string \<times> string) list \<Rightarrow> string" where
  "JSON_stringify kvs = ''{'' @ stringify_members kvs @ ''}''"


subsection \<open>Percent-encoding\<close>

datatype octet = Raw char | Esc nat

text \<open>The escapes of a text; \<open>None\<close> on a \<open>%\<close> that two hexadecimal digits do not follow.\<close>

fun pct_octets :: "string \<Rightarrow> octet list option" where
  "pct_octets [] = Some []"
| "pct_octets (c # cs) =
     (if c = CHR ''%'' then
        (case cs of
           a # b # r \<Rightarrow>
             (case (digit_val a, digit_val b) of
                (Some x, Some y) \<Rightarrow> map_option ((#) (Esc (x * 16 + y))) (pct_octets r)
              | _ \<Rightarrow> None)
         | _ \<Rightarrow> None)
      else map_option ((#) (Raw c)) (pct_octets cs))"

definition is_cont :: "nat \<Rightarrow> bool" where
  "is_cont b = (0x80 \<le> b \<and> b \<le> 0xBF)"

text \<open>
  The escaped octets have to be the UTF-8 encoding of code points: a lead octet, then
  its continuation octets, all of them escaped, with no overlong form and no surrogate.
\<close>

fun utf8_octets :: "octet list \<Rightarrow> string option" where
  "utf8_octets [] = Some []"
| "utf8_octets (Raw c # r) = map_option ((#) c) (utf8_octets r)"
| "utf8_octets (Esc b # r) =
     (if b < 0x80 then map_option ((#) (char_of b)) (utf8_octets r)
      else if 0xC2 \<le> b \<and> b \<le> 0xDF then
        (case r of
           Esc c1 # r' \<Rightarrow>
             if is_cont c1 then map_option ((@) [char_of b, char_of c1]) (utf8_octets r')
             else None
         | _ \<Rightarrow> None)
      else if 0xE0 \<le> b \<and> b \<le> 0xEF then
        (case r of
           Esc c1 # Esc c2 # r' \<Rightarrow>
             if is_cont c1 \<and> is_cont c2 \<and> (b = 0xE0 \<longrightarrow> 0xA0 \<le> c1) \<and> (b = 0xED \<longrightarrow> c1 \<le> 0x9F)
             then map_option ((@) [char_of b, char_of c1, char_of c2]) (utf8_octets r')
             else None
         | _ \<Rightarrow> None)
      else if 0xF0 \<le> b \<and> b \<le> 0xF4 then
        (case r of
           Esc c1 # Esc c2 # Esc c3 # r' \<Rightarrow>
             if is_cont c1 \<and> is_cont c2 \<and> is_cont c3
                \<and> (b = 0xF0 \<longrightarrow> 0x90 \<le> c1) \<and> (b = 0xF4 \<longrightarrow> c1 \<le> 0x8F)
             then map_option ((@) [char_of b, char_of c1, char_of c2, char_of c3]) (utf8_octets r')
             else None
         | _ \<Rightarrow> None)
      else None)"

definition decodeURIComponent_node :: "string \<Rightarrow> exn + string" where
  "decodeURIComponent_node s =
     (case pct_octets s of
        None \<Rightarrow> Inl URIError
      | Some os \<Rightarrow> (case utf8_octets os of None \<Rightarrow> Inl URIError | Some t \<Rightarrow> Inr t))"

definition is_uri_unreserved :: "char \<Rightarrow> bool" where
  "is_uri_unreserved c =
     (let n = (of_char c :: nat) in
      (65 \<le> n \<and> n \<le> 90) \<or> (97 \<le> n \<and> n \<le> 122) \<or> (48 \<le> n \<and> n \<le> 57)
      \<or> c \<in> set ''-_.!~*'()'')"

definition hex_digit :: "nat \<Rightarrow> char" where
  "hex_digit n = (if n < 10 then char_of (48 + n) else char_of (55 + n))"

text \<open>
  \<^verbatim>\<open>encodeURIComponent(s)\<close> on a well-formed string: every byte of the UTF-8 encoding
  that is not an unreserved character becomes \<open>%XX\<close>.
\<close>

definition encodeURIComponent :: "string \<Rightarrow> string" where
  "encodeURIComponent s =
     concat (map (\<lambda>c. if is_uri_unreserved c then [c]
                       else [CHR ''%'', hex_digit ((of_char c :: nat) div 16),
                             hex_digit ((of_char c :: nat) mod 16)]) s)"

subsection \<open>Base64\<close>

text \<open>The value of a base64 character, in the standard and in the URL-safe alphabet.\<close>

definition unbase64 :: "char \<Rightarrow> nat option" where
  "unbase64 c =
     (let n = (of_char c :: nat) in
      if 65 \<le> n \<and> n \<le> 90 then Some (n - 65)
      else if 97 \<le> n \<and> n \<le> 122 then Some (n - 71)
      else if 48 \<le> n \<and> n \<le> 57 then Some (n + 4)
      else if c = CHR ''+'' \<or> c = CHR ''-'' then Some 62
      else if c = CHR ''/'' \<or> c = CHR ''_'' then Some 63
      else None)"

fun sextets_bytes :: "nat list \<Rightarrow> string" where
  "sextets_bytes (a # b # c # d # r) =
     char_of (a * 4 + b div 16) # char_of ((b mod 16) * 16 + c div 4)
       # char_of ((c mod 4) * 64 + d) # sextets_bytes r"
| "sextets_bytes [a, b, c] = [char_of (a * 4 + b div 16), char_of ((b mod 16) * 16 + c div 4)]"
| "sextets_bytes [a, b] = [char_of (a * 4 + b div 16)]"
| "sextets_bytes r = []"

text \<open>
  \<^verbatim>\<open>Buffer.from(s, 'base64')\<close>: decoding stops at the first \<open>=\<close>, a character outside
  the alphabets is skipped, and a last group of two or three characters gives one or
  two bytes. \<^verbatim>\<open>toString('utf-8')\<close> leaves the bytes of well-formed UTF-8 as they are;
  the replacement of ill-formed sequences is not modelled.
\<close>

definition Buffer_from_base64 :: "string \<Rightarrow> string" where
  "Buffer_from_base64 s =
     sextets_bytes (List.map_filter unbase64 (takeWhile (\<lambda>c. c \<noteq> CHR ''='') s))"

text \<open>The standard encoding (RFC 4648, section 4), with padding.\<close>

definition base64_char :: "nat \<Rightarrow> char" where
  "base64_char n =
     (if n < 26 then char_of (65 + n)
      else if n < 52 then char_of (71 + n)
      else if n < 62 then char_of (n - 4)
      else if n = 62 then CHR ''+'' else CHR ''/'')"

fun bytes_sextets :: "string \<Rightarrow> nat list" where
  "bytes_sextets (x # y # z # r) =
     (of_char x div 4) # ((of_char x mod 4) * 16 + of_char y div 16)
       # ((of_char y mod 16) * 4 + of_char z div 64) # (of_char z mod 64) # bytes_sextets r"
| "bytes_sextets [x, y] =
     [of_char x div 4, (of_char x mod 4) * 16 + of_char y div 16, (of_char y mod 16) * 4]"
| "bytes_sextets [x] = [of_char x div 4, (of_char x mod 4) * 16]"
| "bytes_sextets [] = []"

definition base64_encode :: "string \<Rightarrow> string" where
  "base64_encode bs =
     map base64_char (bytes_sextets bs) @ replicate ((3 - length bs mod 3) mod 3) CHR ''=''"

definition node :: platform where
  "node = \<lparr>JSON_parse = JSON_parse_node,
           decodeURIComponent = decodeURIComponent_node,
           base64_utf8 = (\<lambda>s. Inr (Buffer_from_base64 s))\<rparr>"

section \<open>The channel-link cache (lines 511-630)\<close>

text \<open>
  \<^verbatim>\<open>interface VavooCache { timestamp: number; links: Map<string, string | string[]>;
  updating: boolean; }\<close>
  The map is the list of its entries in insertion order. At run time the keys and the
  values are whatever \<^verbatim>\<open>JSON.parse\<close> returned, hence \<^typ>\<open>jsval\<close>; keys are compared
  by structure.
\<close>

record VavooCache =
  timestamp :: int
  links :: "(jsval \<times> jsval) list"
  updating :: bool

definition vavooCache :: VavooCache where
  "vavooCache = \<lparr>timestamp = 0, links = [], updating = False\<rparr>"

text \<open>
  The loop of lines 607-612:
  \<^verbatim>\<open>for (const ch of channels) { if (ch.name && ch.url) { updatedLinks.set(ch.name, ch.url); } }\<close>
  Reading a property of \<^verbatim>\<open>null\<close> throws.
\<close>

fun collect_links :: "jsval list \<Rightarrow> (jsval \<times> jsval) list \<Rightarrow> exn + (jsval \<times> jsval) list" where
  "collect_links [] updatedLinks = Inr updatedLinks"
| "collect_links (ch # rest) updatedLinks =
     (case get_prop ch ''name'' of
        Inl e \<Rightarrow> Inl e
      | Inr name \<Rightarrow>
          if js_truthy name then
            (case get_prop ch ''url'' of
               Inl e \<Rightarrow> Inl e
             | Inr url \<Rightarrow>
                 if js_truthy url then collect_links rest (AList.update name url updatedLinks)
                 else collect_links rest updatedLinks)
          else collect_links rest updatedLinks)"

text \<open>
  \<^verbatim>\<open>updateVavooCache\<close> up to its \<^verbatim>\<open>await\<close> (lines 589-601). \<open>Some False\<close>: the call
  has returned \<^verbatim>\<open>false\<close>. \<open>None\<close>: the flag is set, the resolver process has been
  started and the call is suspended until the process settles.
\<close>

definition updateVavooCache_start :: "VavooCache \<Rightarrow> bool option \<times> VavooCache" where
  "updateVavooCache_start c =
     (if updating c then (Some False, c)
      else (None, c\<lparr>updating := True\<rparr>))"

text \<open>
  The \<^verbatim>\<open>try\<close> block from the \<^verbatim>\<open>await\<close> on (lines 598-622). \<open>result\<close> is what the
  resolver process settled with: \<open>Inl\<close> a rejection (error, non-zero exit, timeout),
  \<open>Inr\<close> its standard output. The outcome is an exception, a returned value, or
  \<open>None\<close> when the block ends without returning. The inner \<^verbatim>\<open>catch\<close> rethrows.
  \<^verbatim>\<open>channels.length\<close> throws on \<^verbatim>\<open>null\<close>, as the iteration does. \<^verbatim>\<open>saveVavooCache\<close>
  catches every exception of its own and does not touch the cache.
\<close>

definition update_try :: "platform \<Rightarrow> int \<Rightarrow> exn + string \<Rightarrow> VavooCache
    \<Rightarrow> (exn + bool option) \<times> VavooCache" where
  "update_try P now result c =
     (case result of
        Inl e \<Rightarrow> (Inl e, c)
      | Inr stdout \<Rightarrow>
          if stdout \<noteq> [] then
            (case JSON_parse P stdout of
               Inl jsonError \<Rightarrow> (Inl jsonError, c)
             | Inr channels \<Rightarrow>
                 (case js_iterate channels of
                    Inl e \<Rightarrow> (Inl e, c)
                  | Inr chs \<Rightarrow>
                      (case collect_links chs [] of
                         Inl e \<Rightarrow> (Inl e, c)
                       | Inr updatedLinks \<Rightarrow>
                           (Inr (Some True), c\<lparr>links := updatedLinks, timestamp := now\<rparr>))))
          else (Inr None, c))"

text \<open>
  The rest of \<^verbatim>\<open>updateVavooCache\<close> (lines 623-629): the outer \<^verbatim>\<open>catch\<close> returns
  \<^verbatim>\<open>false\<close>, \<^verbatim>\<open>finally\<close> clears the flag, and the end of the function returns
  \<^verbatim>\<open>false\<close>.
\<close>

definition updateVavooCache_resume :: "platform \<Rightarrow> int \<Rightarrow> exn + string \<Rightarrow> VavooCache
    \<Rightarrow> bool \<times> VavooCache" where
  "updateVavooCache_resume P now result c =
     (case update_try P now result c of
        (Inl error, c') \<Rightarrow> (False, c'\<lparr>updating := False\<rparr>)
      | (Inr (Some b), c') \<Rightarrow> (b, c'\<lparr>updating := False\<rparr>)
      | (Inr None, c') \<Rightarrow> (False, c'\<lparr>updating := False\<rparr>))"

text \<open>One call of \<^verbatim>\<open>updateVavooCache\<close> with nothing else running in between.\<close>

definition updateVavooCache :: "platform \<Rightarrow> int \<Rightarrow> exn + string \<Rightarrow> VavooCache
    \<Rightarrow> bool \<times> VavooCache" where
  "updateVavooCache P now result c =
     (case updateVavooCache_start c of
        (Some b, c') \<Rightarrow> (b, c')
      | (None, c') \<Rightarrow> updateVavooCache_resume P now result c')"

text \<open>
  The process around the cache. JavaScript runs each piece of code between two
  \<^verbatim>\<open>await\<close>s to completion, so the process moves by events:
  \<^item> \<open>Refresh\<close>: some caller (the start-up timer, the 12-hour interval,
    \<^verbatim>\<open>resolveVavooChannelByName\<close>) calls \<^verbatim>\<open>updateVavooCache()\<close>;
  \<^item> \<open>Settle result now\<close>: the resolver process of a suspended call settles at time
    \<open>now\<close>, and the call runs to its end;
  \<^item> \<open>Load t l\<close>: \<^verbatim>\<open>loadVavooCache\<close> (lines 540-558) assigns the timestamp and the
    links it read from the cache file;
  \<^item> \<open>Store name url\<close>: the uncached resolver stores a link (line 815).

  \<open>suspended\<close> counts the calls of \<^verbatim>\<open>updateVavooCache\<close> that are past their
  \<^verbatim>\<open>await\<close> and not finished, and \<open>exec_calls\<close> the resolver processes started.
\<close>

record server =
  cache :: VavooCache
  suspended :: nat
  exec_calls :: nat

datatype event =
    Refresh
  | Settle "exn + string" int
  | Load int "(jsval \<times> jsval) list"
  | Store jsval jsval

definition server_init :: server where
  "server_init = \<lparr>cache = vavooCache, suspended = 0, exec_calls = 0\<rparr>"

fun step :: "platform \<Rightarrow> server \<Rightarrow> event \<Rightarrow> server" where
  "step P s Refresh =
     (case updateVavooCache_start (cache s) of
        (Some b, c') \<Rightarrow> s\<lparr>cache := c'\<rparr>
      | (None, c') \<Rightarrow>
          s\<lparr>cache := c', suspended := suspended s + 1, exec_calls := exec_calls s + 1\<rparr>)"
| "step P s (Settle result now) =
     (if suspended s = 0 then s
      else s\<lparr>cache := snd (updateVavooCache_resume P now result (cache s)),
             suspended := suspended s - 1\<rparr>)"
| "step P s (Load t l) = s\<lparr>cache := (cache s)\<lparr>timestamp := t, links := l\<rparr>\<rparr>"
| "step P s (Store name url) =
     s\<lparr>cache := (cache s)\<lparr>links := AList.update name url (links (cache s))\<rparr>\<rparr>"

definition run :: "platform \<Rightarrow> event list \<Rightarrow> server" where
  "run P evs = foldl (step P) server_init evs"

section \<open>Settings, environment, streams and providers\<close>

text \<open>
  \<^verbatim>\<open>interface AddonConfig\<close> (lines 242-254): every key is optional. The keys the stream
  handlers read are modelled, with string values.
\<close>

record AddonConfig =
  mediaFlowProxyUrl :: "string option"
  mediaFlowProxyPassword :: "string option"
  tmdbApiKey :: "string option"
  bothLinks :: "string option"
  animeunityEnabled :: "string option"
  animesaturnEnabled :: "string option"
  mfpProxyUrl :: "string option"
  mfpProxyPassword :: "string option"
  tvProxyUrl :: "string option"

text \<open>The variables of \<^verbatim>\<open>process.env\<close> that the stream handlers read.\<close>

record environment =
  MFP_URL :: "string option"
  MFP_PSW :: "string option"
  TMDB_API_KEY :: "string option"
  ANIMEUNITY_ENABLED :: "string option"
  ANIMESATURN_ENABLED :: "string option"
  BOTHLINK :: "string option"

text \<open>
  \<^verbatim>\<open>Stream\<close> of the add-on SDK, with the properties the handlers set. \<open>stream_referer\<close>
  is \<^verbatim>\<open>behaviorHints.headers.Referer\<close>, with \<^verbatim>\<open>notWebReady: true\<close> beside it.
\<close>

record Stream =
  stream_name :: "string option"
  stream_title :: "string option"
  stream_url :: string
  stream_referer :: "string option"

text \<open>\<^verbatim>\<open>VixCloudStreamInfo\<close>, from the extractor: \<^verbatim>\<open>streamUrl\<close> may be \<^verbatim>\<open>null\<close>.\<close>

record VixCloudStreamInfo =
  vix_name :: string
  streamUrl :: "string option"
  vix_referer :: string

record ExtractorConfig =
  ex_tmdbApiKey :: "string option"
  ex_mfpUrl :: "string option"
  ex_mfpPsw :: "string option"
  ex_bothLink :: bool

text \<open>
  \<^verbatim>\<open>AnimeUnityConfig\<close>. The configuration of AnimeSaturn has the same five values; the
  revision of lines 223-1200 repeats two of them under the keys \<^verbatim>\<open>mfpProxyUrl\<close> and
  \<^verbatim>\<open>mfpProxyPassword\<close>.
\<close>

record AnimeConfig =
  an_enabled :: bool
  an_mfpUrl :: string
  an_mfpPassword :: string
  an_bothLink :: bool
  an_tmdbApiKey :: string

text \<open>The four request methods of an anime provider.\<close>

datatype anime_request =
    handleKitsuRequest string
  | handleMalRequest string
  | handleImdbRequest string "number option" "number option" bool
  | handleTmdbRequest string "number option" "number option" bool

text \<open>
  The providers are outside the module. A call returns or throws; an anime provider
  returns \<open>Some streams\<close> when its result has a \<^verbatim>\<open>streams\<close> property and \<open>None\<close>
  otherwise; the constructor of the provider and the dynamic \<^verbatim>\<open>import\<close> count as part of
  the call, since they stand in the same \<^verbatim>\<open>try\<close>. \<open>resolveVavoo\<close> is
  \<^verbatim>\<open>resolveVavooChannelByName\<close> as the live-TV handler awaits it.
\<close>

record providers =
  getStreamContent :: "string \<Rightarrow> string \<Rightarrow> ExtractorConfig \<Rightarrow> exn + VixCloudStreamInfo list option"
  AnimeUnityProvider :: "AnimeConfig \<Rightarrow> anime_request \<Rightarrow> exn + Stream list option"
  AnimeSaturnProvider :: "AnimeConfig \<Rightarrow> anime_request \<Rightarrow> exn + Stream list option"
  resolveVavoo :: "string \<Rightarrow> exn + string option"

text \<open>The provider calls a request has made, in order.\<close>

datatype provider_call = VixSrc | AnimeUnity | AnimeSaturn | Vavoo

record channel =
  channel_id :: string
  channel_name :: string
  staticUrl :: "string option"
  staticUrl2 :: "string option"
  staticUrlD :: "string option"

text \<open>\<^verbatim>\<open>s.toLowerCase()\<close>, on the ASCII letters.\<close>

definition toLowerCase :: "string \<Rightarrow> string" where
  "toLowerCase s =
     map (\<lambda>c. if 65 \<le> (of_char c :: nat) \<and> (of_char c :: nat) \<le> 90
                then char_of ((of_char c :: nat) + 32) else c) s"

text \<open>\<^verbatim>\<open>(config.k === 'on') || (process.env.K?.toLowerCase() === 'true')\<close>\<close>

definition provider_enabled :: "string option \<Rightarrow> string option \<Rightarrow> bool" where
  "provider_enabled k K = (k = Some ''on'' \<or> map_option toLowerCase K = Some ''true'')"

text \<open>\<^verbatim>\<open>config.k || process.env.K || ''\<close> of the anime configurations.\<close>

definition animeConfig :: "AddonConfig \<Rightarrow> environment \<Rightarrow> bool \<Rightarrow> bool \<Rightarrow> AnimeConfig" where
  "animeConfig config env enabled bothLinkValue =
     \<lparr>an_enabled = enabled,
      an_mfpUrl = or_empty (or_else (mediaFlowProxyUrl config) (MFP_URL env)),
      an_mfpPassword = or_empty (or_else (mediaFlowProxyPassword config) (MFP_PSW env)),
      an_bothLink = bothLinkValue,
      an_tmdbApiKey = or_empty (or_else (tmdbApiKey config) (TMDB_API_KEY env))\<rparr>"

definition finalConfig :: "AddonConfig \<Rightarrow> environment \<Rightarrow> bool \<Rightarrow> ExtractorConfig" where
  "finalConfig config env bothLinkValue =
     \<lparr>ex_tmdbApiKey = or_else (tmdbApiKey config) (TMDB_API_KEY env),
      ex_mfpUrl = or_else (mediaFlowProxyUrl config) (MFP_URL env),
      ex_mfpPsw = or_else (mediaFlowProxyPassword config) (MFP_PSW env),
      ex_bothLink = bothLinkValue\<rparr>"

text \<open>
  The loop over the result of \<^verbatim>\<open>getStreamContent\<close> (lines 1004-1017, 1948-1963): an
  entry whose \<^verbatim>\<open>streamUrl\<close> is \<^verbatim>\<open>null\<close> is skipped.
\<close>

fun vixStreams :: "VixCloudStreamInfo list \<Rightarrow> Stream list" where
  "vixStreams [] = []"
| "vixStreams (st # res) =
     (case streamUrl st of
        None \<Rightarrow> vixStreams res
      | Some u \<Rightarrow>
          \<lparr>stream_name = Some ''StreamViX Vx'', stream_title = Some (vix_name st),
           stream_url = u, stream_referer = Some (vix_referer st)\<rparr> # vixStreams res)"

text \<open>
  One anime provider inside its \<^verbatim>\<open>try\<close> (lines 964-974, 1053-1068, 1870-1896): the
  streams it adds, each under the provider's label; nothing when the call throws or the
  result has no streams.
\<close>

definition anime_streams :: "string \<Rightarrow> exn + Stream list option \<Rightarrow> Stream list" where
  "anime_streams label result =
     (case result of
        Inl error \<Rightarrow> []
      | Inr None \<Rightarrow> []
      | Inr (Some streams) \<Rightarrow> map (\<lambda>s. s\<lparr>stream_name := Some label\<rparr>) streams)"

section \<open>The stream handler of lines 916-1095\<close>

text \<open>
  The result of a handler: the provider calls it made, and the streams it resolved with
  or the exception it rejected with.
\<close>

type_synonym handler_result = "provider_call list \<times> (exn + Stream list)"

text \<open>Lines 920-930: the channel id of a live-TV request.\<close>

definition tv_cleanId :: "platform \<Rightarrow> string \<Rightarrow> exn + string" where
  "tv_cleanId P ident =
     (if startsWith ident ''tv:'' then Inr (remove_first ''tv:'' ident)
      else if startsWith ident ''tv%3A'' then Inr (remove_first ''tv%3A'' ident)
      else if str_includes ident ''%3A'' then
        (case decodeURIComponent P ident of
           Inl e \<Rightarrow> Inl e
         | Inr cleanId \<Rightarrow>
             Inr (if startsWith cleanId ''tv:'' then remove_first ''tv:'' cleanId else cleanId))
      else Inr ident)"

text \<open>
  The request an anime provider gets for an IMDB or TMDB id (lines 1057-1061), with the
  season, the episode and the movie flag of lines 1040-1051; \<open>None\<close> when the id has
  neither prefix and no request is made.
\<close>

definition imdb_tmdb_request :: "string \<Rightarrow> anime_request option" where
  "imdb_tmdb_request ident =
     (let ep = parseSeasonEpisode parseInt ident in
      if startsWith ident ''tt'' then
        Some (handleImdbRequest ident (seasonNumber ep) (episodeNumber ep) (isMovie ep))
      else if startsWith ident ''tmdb:'' then
        Some (handleTmdbRequest (remove_first ''tmdb:'' ident)
                (seasonNumber ep) (episodeNumber ep) (isMovie ep))
      else None)"

text \<open>
  The two guarded \<^verbatim>\<open>try\<close> blocks (lines 963-987 and 1052-1086): AnimeUnity, then
  AnimeSaturn, each only when enabled and each with its own \<^verbatim>\<open>catch\<close>. The result is
  the calls made and \<^verbatim>\<open>allStreams\<close>.
\<close>

definition anime_providers :: "providers \<Rightarrow> AnimeConfig \<Rightarrow> AnimeConfig \<Rightarrow> anime_request option
    \<Rightarrow> provider_call list \<times> Stream list" where
  "anime_providers prov animeUnityConfig animeSaturnConfig request =
     (case request of
        None \<Rightarrow> ([], [])
      | Some req \<Rightarrow>
          ((if an_enabled animeUnityConfig then [AnimeUnity] else [])
             @ (if an_enabled animeSaturnConfig then [AnimeSaturn] else []),
           (if an_enabled animeUnityConfig
            then anime_streams ''StreamViX AU'' (AnimeUnityProvider prov animeUnityConfig req)
            else [])
             @ (if an_enabled animeSaturnConfig
                then anime_streams ''StreamViX AS'' (AnimeSaturnProvider prov animeSaturnConfig req)
                else [])))"

text \<open>
  \<^verbatim>\<open>builder.defineStreamHandler(async ({ id, type }) => ...)\<close>, lines 916-1095.
  \<open>configCache\<close> is the global settings object the handler copies, \<open>tvChannels\<close> the
  global channel list.
\<close>

definition streamHandler :: "platform \<Rightarrow> providers \<Rightarrow> environment \<Rightarrow> AddonConfig \<Rightarrow> channel list
    \<Rightarrow> string \<Rightarrow> string \<Rightarrow> handler_result" where
  "streamHandler P prov env configCache tvChannels ident type =
     (if type = ''tv'' then
        (case tv_cleanId P ident of
           Inl e \<Rightarrow> ([], Inl e)
         | Inr cleanId \<Rightarrow>
             (case find (\<lambda>c. channel_id c = cleanId) tvChannels of
                None \<Rightarrow> ([], Inr [])
              | Some channel \<Rightarrow>
                  ([], Inr (if truthy (staticUrl channel)
                            then [\<lparr>stream_name = None, stream_title = Some (channel_name channel),
                                   stream_url = or_empty (staticUrl channel),
                                   stream_referer = None\<rparr>]
                            else []))))
      else
        (let config = configCache;
             bothLinkValue = (bothLinks config = Some ''on'');
             animeUnityEnabled =
               provider_enabled (animeunityEnabled config) (ANIMEUNITY_ENABLED env);
             animeSaturnEnabled =
               provider_enabled (animesaturnEnabled config) (ANIMESATURN_ENABLED env);
             animeUnityConfig = animeConfig config env animeUnityEnabled bothLinkValue;
             animeSaturnConfig = animeConfig config env animeSaturnEnabled bothLinkValue
         in
         if (startsWith ident ''kitsu:'' \<or> startsWith ident ''mal:'')
            \<and> (animeUnityEnabled \<or> animeSaturnEnabled)
         then
           (case anime_providers prov animeUnityConfig animeSaturnConfig
                   (Some (handleKitsuRequest ident)) of
              (calls, allStreams) \<Rightarrow> (calls, Inr allStreams))
         else if startsWith ident ''tt'' \<or> startsWith ident ''tmdb:'' then
           (case getStreamContent prov ident type (finalConfig config env bothLinkValue) of
              Inl e \<Rightarrow> ([VixSrc], Inl e)
            | Inr res \<Rightarrow>
                (let vix = (case res of None \<Rightarrow> [] | Some infos \<Rightarrow> vixStreams infos) in
                 if vix \<noteq> [] then ([VixSrc], Inr vix)
                 else if animeUnityEnabled \<or> animeSaturnEnabled then
                   (case anime_providers prov animeUnityConfig animeSaturnConfig
                           (imdb_tmdb_request ident) of
                      (calls, allStreams) \<Rightarrow> (VixSrc # calls, Inr allStreams))
                 else ([VixSrc], Inr [])))
         else ([], Inr [])))"

section \<open>The stream handler of lines 1687-1975\<close>

text \<open>\<^verbatim>\<open>isFreeToAirChannel\<close> (lines 1420-1431)\<close>

definition freeToAirIds :: "string list" where
  "freeToAirIds =
     [''rai1'', ''rai2'', ''rai3'', ''rai4'', ''rai5'', ''raimovie'', ''raipremium'', ''raigulp'',
      ''raiyoyo'', ''rainews24'', ''raistoria'', ''raiscuola'', ''raisport'', ''rai4k'',
      ''rete4'', ''canale5'', ''italia1'', ''20mediaset'', ''iris'', ''la5'', ''twentyseven'',
      ''cine34'', ''focus'', ''topcrime'', ''boing'', ''cartoonito'', ''super'', ''italia2'',
      ''tgcom24'', ''mediasetextra'',
      ''la7'', ''la7d'', ''tv8'', ''nove'', ''cielo'', ''tv2000'', ''realtime'', ''qvc'',
      ''foodnetwork'', ''warnertv'', ''giallo'', ''k2'', ''frisbee'', ''dmax'', ''hgtv'',
      ''motortrend'', ''rtl1025tv'',
      ''sportitalia'', ''donnatv'', ''supertennis'']"

definition isFreeToAirChannel :: "string \<Rightarrow> bool" where
  "isFreeToAirChannel channelId = (channelId \<in> set freeToAirIds)"

text \<open>Lines 1715-1718: the proxy settings of a live-TV request.\<close>

definition mfpUrl_of :: "AddonConfig \<Rightarrow> string" where
  "mfpUrl_of config =
     (if truthy (mfpProxyUrl config) then normalizeProxyUrl (or_empty (mfpProxyUrl config))
      else if truthy (mediaFlowProxyUrl config)
      then normalizeProxyUrl (or_empty (mediaFlowProxyUrl config))
      else [])"

definition mfpPsw_of :: "AddonConfig \<Rightarrow> string" where
  "mfpPsw_of config = or_empty (or_else (mfpProxyPassword config) (mediaFlowProxyPassword config))"

definition tvProxyUrl_of :: "AddonConfig \<Rightarrow> string" where
  "tvProxyUrl_of config =
     (if truthy (tvProxyUrl config) then normalizeProxyUrl (or_empty (tvProxyUrl config))
      else [])"

text \<open>
  The two templates of the generic proxy (lines 1736-1740): the manifest one when the
  link contains \<^verbatim>\<open>.mpd\<close>, the stream one otherwise.
\<close>

definition mfp_template :: "string \<Rightarrow> string \<Rightarrow> string \<Rightarrow> string" where
  "mfp_template mfpUrl mfpPsw link =
     (if str_includes link ''.mpd''
      then mfpUrl @ ''/proxy/mpd/manifest.m3u8?api_password='' @ encodeURIComponent mfpPsw
             @ ''&d='' @ link
      else mfpUrl @ ''/proxy/stream/?api_password='' @ encodeURIComponent mfpPsw
             @ ''&d='' @ link)"

text \<open>The template of the TV proxy (lines 1785 and 1803).\<close>

definition tv_template :: "string \<Rightarrow> string \<Rightarrow> string" where
  "tv_template tvProxy link = tvProxy @ ''/proxy/m3u?url='' @ encodeURIComponent link"

text \<open>The emoji that open the titles, as their UTF-8 bytes.\<close>

definition red_circle :: string where
  "red_circle = [CHR 0xF0, CHR 0x9F, CHR 0x94, CHR 0xB4]"

definition clapper :: string where
  "clapper = [CHR 0xF0, CHR 0x9F, CHR 0x8E, CHR 0xAC]"

definition mobile_phone :: string where
  "mobile_phone = [CHR 0xF0, CHR 0x9F, CHR 0x93, CHR 0xB1]"

definition glowing_star :: string where
  "glowing_star = [CHR 0xF0, CHR 0x9F, CHR 0x8C, CHR 0x9F]"

text \<open>The entries of \<^verbatim>\<open>streams\<close>: \<^verbatim>\<open>{ url: string; title: string }\<close>.\<close>

record tv_entry =
  entry_url :: string
  entry_title :: string

text \<open>Step 1 (lines 1727-1752): the stream of \<^verbatim>\<open>staticUrl\<close>.\<close>

definition staticUrl_stream :: "string \<Rightarrow> string \<Rightarrow> bool \<Rightarrow> string \<Rightarrow> string option \<Rightarrow> tv_entry list" where
  "staticUrl_stream mfpUrl mfpPsw isFreeToAir name link =
     (if truthy link then
        (if isFreeToAir then
           [\<lparr>entry_url = or_empty link,
             entry_title = red_circle @ '' '' @ name @ '' (Direct)''\<rparr>]
         else if mfpUrl \<noteq> [] \<and> mfpPsw \<noteq> [] then
           [\<lparr>entry_url = mfp_template mfpUrl mfpPsw (or_empty link),
             entry_title = red_circle @ '' '' @ name @ '' (Proxy)''\<rparr>]
         else
           [\<lparr>entry_url = or_empty link,
             entry_title = red_circle @ '' '' @ name @ '' (Direct)''\<rparr>])
      else [])"

text \<open>Step 2 (lines 1755-1780): the stream of \<^verbatim>\<open>staticUrl2\<close>.\<close>

definition staticUrl2_stream :: "string \<Rightarrow> string \<Rightarrow> bool \<Rightarrow> string \<Rightarrow> string option \<Rightarrow> tv_entry list" where
  "staticUrl2_stream mfpUrl mfpPsw isFreeToAir name link =
     (if truthy link then
        (if isFreeToAir then
           [\<lparr>entry_url = or_empty link, entry_title = clapper @ '' '' @ name @ '' (HD)''\<rparr>]
         else if mfpUrl \<noteq> [] \<and> mfpPsw \<noteq> [] then
           [\<lparr>entry_url = mfp_template mfpUrl mfpPsw (or_empty link),
             entry_title = clapper @ '' '' @ name @ '' (HD)''\<rparr>]
         else
           [\<lparr>entry_url = or_empty link, entry_title = clapper @ '' '' @ name @ '' (HD)''\<rparr>])
      else [])"

text \<open>Step 3 (lines 1783-1796): the stream of \<^verbatim>\<open>staticUrlD\<close>.\<close>

definition staticUrlD_stream :: "string \<Rightarrow> string \<Rightarrow> string option \<Rightarrow> tv_entry list" where
  "staticUrlD_stream tvProxy name link =
     (if truthy link then
        (if tvProxy \<noteq> [] then
           [\<lparr>entry_url = tv_template tvProxy (or_empty link),
             entry_title = mobile_phone @ '' '' @ name @ '' (D)''\<rparr>]
         else
           [\<lparr>entry_url = or_empty link,
             entry_title = mobile_phone @ '' '' @ name @ '' (D)''\<rparr>])
      else [])"

text \<open>
  Step 4 (lines 1799-1812): the link of the resolver, inside its own \<^verbatim>\<open>try\<close>, and
  only with a TV proxy.
\<close>

definition vavoo_stream :: "providers \<Rightarrow> string \<Rightarrow> string \<Rightarrow> provider_call list \<times> tv_entry list" where
  "vavoo_stream prov tvProxy channelName =
     (if channelName \<noteq> [] \<and> tvProxy \<noteq> [] then
        (case resolveVavoo prov channelName of
           Inl error \<Rightarrow> ([Vavoo], [])
         | Inr vavooOriginalLink \<Rightarrow>
             if truthy vavooOriginalLink then
               ([Vavoo],
                [\<lparr>entry_url = tv_template tvProxy (or_empty vavooOriginalLink),
                  entry_title = glowing_star @ '' '' @ channelName @ '' (Vavoo)''\<rparr>])
             else ([Vavoo], []))
      else ([], []))"

text \<open>The live-TV branch for a channel that was found (lines 1714-1822).\<close>

definition tv_streams :: "providers \<Rightarrow> AddonConfig \<Rightarrow> string \<Rightarrow> channel \<Rightarrow> provider_call list \<times> Stream list" where
  "tv_streams prov config cleanId channel =
     (let mfpUrl = mfpUrl_of config;
          mfpPsw = mfpPsw_of config;
          tvProxy = tvProxyUrl_of config;
          channelName = channel_name channel;
          isFreeToAir = isFreeToAirChannel cleanId;
          (calls, vavoo) = vavoo_stream prov tvProxy channelName;
          streams = staticUrl_stream mfpUrl mfpPsw isFreeToAir channelName (staticUrl channel)
                    @ staticUrl2_stream mfpUrl mfpPsw isFreeToAir channelName (staticUrl2 channel)
                    @ staticUrlD_stream tvProxy channelName (staticUrlD channel)
                    @ vavoo
      in (calls,
          map (\<lambda>s. \<lparr>stream_name = Some ''StreamViX TV'', stream_title = Some (entry_title s),
                     stream_url = entry_url s, stream_referer = None\<rparr>) streams))"

text \<open>
  Line 1704: \<^verbatim>\<open>const cleanId = id.startsWith('tv:') ? id.replace('tv:', '') : id;\<close>
\<close>

definition tv_channel_id :: "string \<Rightarrow> string" where
  "tv_channel_id ident = (if startsWith ident ''tv:'' then remove_first ''tv:'' ident else ident)"

text \<open>
  The request of an anime provider in this handler (lines 1874-1886): the four kinds of
  id, and the season and episode only for an IMDB or TMDB id (lines 1854-1868).
\<close>

definition anime_request_of :: "string \<Rightarrow> anime_request option" where
  "anime_request_of ident =
     (if startsWith ident ''kitsu:'' then Some (handleKitsuRequest ident)
      else if startsWith ident ''mal:'' then Some (handleMalRequest ident)
      else imdb_tmdb_request ident)"

text \<open>
  Lines 1827-1926: the anime providers, for the four kinds of id and only when one of
  them is enabled. \<open>config\<close> is the parameter of \<^verbatim>\<open>createBuilder\<close>.
\<close>

definition anime_block :: "providers \<Rightarrow> environment \<Rightarrow> AddonConfig \<Rightarrow> string
    \<Rightarrow> provider_call list \<times> Stream list" where
  "anime_block prov env config ident =
     (let animeUnityEnabled =
            provider_enabled (animeunityEnabled config) (ANIMEUNITY_ENABLED env);
          animeSaturnEnabled =
            provider_enabled (animesaturnEnabled config) (ANIMESATURN_ENABLED env);
          bothLinkValue = (bothLinks config = Some ''on'')
      in
      if (startsWith ident ''kitsu:'' \<or> startsWith ident ''mal:''
          \<or> startsWith ident ''tt'' \<or> startsWith ident ''tmdb:'')
         \<and> (animeUnityEnabled \<or> animeSaturnEnabled)
      then anime_providers prov
             (animeConfig config env animeUnityEnabled bothLinkValue)
             (animeConfig config env animeSaturnEnabled bothLinkValue)
             (anime_request_of ident)
      else ([], []))"

text \<open>
  The body of the \<^verbatim>\<open>try\<close> of lines 1697-1969. The anime providers come first and the
  VixSrc extractor after them (lines 1928-1966), and \<^verbatim>\<open>allStreams\<close> collects both.
\<close>

definition streamHandler_try :: "providers \<Rightarrow> environment \<Rightarrow> AddonConfig \<Rightarrow> channel list
    \<Rightarrow> string \<Rightarrow> string \<Rightarrow> handler_result" where
  "streamHandler_try prov env config tvChannels ident type =
     (if type = ''tv'' then
        (let cleanId = tv_channel_id ident in
         case find (\<lambda>c. channel_id c = cleanId) tvChannels of
           None \<Rightarrow> ([], Inr [])
         | Some channel \<Rightarrow>
             (case tv_streams prov config cleanId channel of
                (calls, finalStreams) \<Rightarrow> (calls, Inr finalStreams)))
      else
        (case anime_block prov env config ident of
           (animeCalls, animeStreams) \<Rightarrow>
             if \<not> startsWith ident ''kitsu:'' \<and> \<not> startsWith ident ''mal:''
                \<and> \<not> startsWith ident ''tv:''
             then
               (let bothLinkValue =
                      (if bothLinks config \<noteq> None then bothLinks config = Some ''on''
                       else map_option toLowerCase (BOTHLINK env) = Some ''true'')
                in case getStreamContent prov ident type (finalConfig config env bothLinkValue) of
                     Inl e \<Rightarrow> (animeCalls @ [VixSrc], Inl e)
                   | Inr res \<Rightarrow>
                       (animeCalls @ [VixSrc],
                        Inr (animeStreams
                             @ (case res of None \<Rightarrow> [] | Some infos \<Rightarrow> vixStreams infos))))
             else (animeCalls, Inr animeStreams)))"

text \<open>
  The handler (lines 1687-1975): the \<^verbatim>\<open>catch\<close> of line 1970 turns every exception
  into the empty list.
\<close>

definition streamHandler_merged :: "providers \<Rightarrow> environment \<Rightarrow> AddonConfig \<Rightarrow> channel list
    \<Rightarrow> string \<Rightarrow> string \<Rightarrow> handler_result" where
  "streamHandler_merged prov env config tvChannels ident type =
     (case streamHandler_try prov env config tvChannels ident type of
        (calls, Inl error) \<Rightarrow> (calls, Inr [])
      | (calls, Inr streams) \<Rightarrow> (calls, Inr streams))"

section \<open>Concrete inputs\<close>

text \<open>The settings, providers and channels that the concrete results below run on.\<close>

definition example_config :: AddonConfig where
  "example_config =
     \<lparr>mediaFlowProxyUrl = None, mediaFlowProxyPassword = None, tmdbApiKey = None,
      bothLinks = None, animeunityEnabled = Some ''on'', animesaturnEnabled = Some ''on'',
      mfpProxyUrl = Some ''http://mfp:8888/'', mfpProxyPassword = Some ''s3cret!'',
      tvProxyUrl = None\<rparr>"

text \<open>
  Settings with a base URL under both keys, the first of them a slash alone, and a
  password.
\<close>

definition shadowed_config :: AddonConfig where
  "shadowed_config =
     \<lparr>mediaFlowProxyUrl = Some ''http://m'', mediaFlowProxyPassword = None, tmdbApiKey = None,
      bothLinks = None, animeunityEnabled = None, animesaturnEnabled = None,
      mfpProxyUrl = Some ''/'', mfpProxyPassword = Some ''s3cret!'',
      tvProxyUrl = None\<rparr>"

definition example_env :: environment where
  "example_env =
     \<lparr>MFP_URL = None, MFP_PSW = None, TMDB_API_KEY = None, ANIMEUNITY_ENABLED = None,
      ANIMESATURN_ENABLED = None, BOTHLINK = None\<rparr>"

definition example_info :: VixCloudStreamInfo where
  "example_info =
     \<lparr>vix_name = ''Movie 1080p'', streamUrl = Some ''https://vix.example/playlist/1'',
      vix_referer = ''https://vix.example/''\<rparr>"

definition example_anime_stream :: Stream where
  "example_anime_stream =
     \<lparr>stream_name = None, stream_title = Some ''Episode 1'',
      stream_url = ''https://au.example/ep/1'', stream_referer = None\<rparr>"

definition example_providers :: providers where
  "example_providers =
     \<lparr>getStreamContent = (\<lambda>ident type config. Inr (Some [example_info])),
      AnimeUnityProvider = (\<lambda>config request. Inr (Some [example_anime_stream])),
      AnimeSaturnProvider = (\<lambda>config request. Inl (Rejected ''connection refused'')),
      resolveVavoo = (\<lambda>name. Inr None)\<rparr>"

definition failing_primary :: providers where
  "failing_primary =
     example_providers\<lparr>getStreamContent := (\<lambda>ident type config. Inl (Rejected ''fetch failed''))\<rparr>"

definition example_channels :: "channel list" where
  "example_channels =
     [\<lparr>channel_id = ''rai1'', channel_name = ''Rai 1'',
       staticUrl = Some ''https://rai.example/rai1.m3u8'', staticUrl2 = None, staticUrlD = None\<rparr>,
      \<lparr>channel_id = ''skysport'', channel_name = ''Sky Sport'',
       staticUrl = Some ''https://sky.example/sport.mpd'', staticUrl2 = None, staticUrlD = None\<rparr>]"

section \<open>Results\<close>

subsection \<open>Segments of a content id\<close>

lemma parseInt_5: "parseInt ''5'' = Num 5"
  by (simp add: parseInt_def startsWith_def is_space_def digit_val_def)

lemma parseInt_1: "parseInt ''1'' = Num 1"
  by (simp add: parseInt_def startsWith_def is_space_def digit_val_def)

lemma parseInt_2: "parseInt ''2'' = Num 2"
  by (simp add: parseInt_def startsWith_def is_space_def digit_val_def)

text \<open>
  C7. An IMDB or TMDB id is split on \<open>:\<close>. One segment: a movie, with no season and
  no episode. Two segments: the episode is the second segment and there is no season.
  Three segments: the season is the second segment and the episode the third.
\<close>

theorem content_id_segments:
  assumes "is_imdb_or_tmdb ident"
  shows "(length (split CHR '':'' ident) = 1 \<longrightarrow>
            parseSeasonEpisode pint ident =
              \<lparr>seasonNumber = None, episodeNumber = None, isMovie = True\<rparr>)
       \<and> (length (split CHR '':'' ident) = 2 \<longrightarrow>
            parseSeasonEpisode pint ident =
              \<lparr>seasonNumber = None,
               episodeNumber = Some (pint (split CHR '':'' ident ! 1)), isMovie = False\<rparr>)
       \<and> (length (split CHR '':'' ident) = 3 \<longrightarrow>
            parseSeasonEpisode pint ident =
              \<lparr>seasonNumber = Some (pint (split CHR '':'' ident ! 1)),
               episodeNumber = Some (pint (split CHR '':'' ident ! 2)), isMovie = False\<rparr>)"
  by (simp add: parseSeasonEpisode_def Let_def)

theorem content_id_segments_witness:
  "is_imdb_or_tmdb ''tt1234567'' \<and> is_imdb_or_tmdb ''tt1234567:5''
   \<and> is_imdb_or_tmdb ''tmdb:1:2''
   \<and> parseSeasonEpisode parseInt ''tt1234567'' =
         \<lparr>seasonNumber = None, episodeNumber = None, isMovie = True\<rparr>
   \<and> parseSeasonEpisode parseInt ''tt1234567:5'' =
         \<lparr>seasonNumber = None, episodeNumber = Some (Num 5), isMovie = False\<rparr>
   \<and> parseSeasonEpisode parseInt ''tmdb:1:2'' =
         \<lparr>seasonNumber = Some (Num 1), episodeNumber = Some (Num 2), isMovie = False\<rparr>"
proof -
  have a: "is_imdb_or_tmdb ''tt1234567''"
    and b: "is_imdb_or_tmdb ''tt1234567:5''"
    and c: "is_imdb_or_tmdb ''tmdb:1:2''"
    by (simp_all add: is_imdb_or_tmdb_def startsWith_def)
  show ?thesis
    using a b c
      content_id_segments [OF a, of parseInt]
      content_id_segments [OF b, of parseInt]
      content_id_segments [OF c, of parseInt]
    by (simp add: parseInt_5 parseInt_1 parseInt_2)
qed

text \<open>
  C8, as stated: season and episode are both present or both absent. It fails on an id
  of two segments, where the episode is set and the season is not.
\<close>

theorem season_episode_both_or_neither_counterexample:
  "\<not> (seasonNumber (parseSeasonEpisode parseInt ''tt1234567:5'') = None
        \<longleftrightarrow> episodeNumber (parseSeasonEpisode parseInt ''tt1234567:5'') = None)"
  by (simp add: parseSeasonEpisode_def Let_def)

text \<open>
  C8, amended. A season is never present without an episode. Both are present exactly
  on three segments; both are absent on one segment and on more than three; on two
  segments the episode is present and the season is absent.
\<close>

theorem season_present_implies_episode_present:
  "(seasonNumber (parseSeasonEpisode pint ident) \<noteq> None \<longrightarrow>
      episodeNumber (parseSeasonEpisode pint ident) \<noteq> None)
   \<and> (seasonNumber (parseSeasonEpisode pint ident) \<noteq> None
          \<longleftrightarrow> length (split CHR '':'' ident) = 3)
   \<and> (episodeNumber (parseSeasonEpisode pint ident) \<noteq> None
          \<longleftrightarrow> length (split CHR '':'' ident) = 2 \<or> length (split CHR '':'' ident) = 3)"
  by (simp add: parseSeasonEpisode_def Let_def)

theorem season_present_implies_episode_present_witness:
  "seasonNumber (parseSeasonEpisode parseInt ''tmdb:1:2'') \<noteq> None
   \<and> episodeNumber (parseSeasonEpisode parseInt ''tmdb:1:2'') \<noteq> None
   \<and> length (split CHR '':'' ''tmdb:1:2'') = 3"
  using season_present_implies_episode_present [of parseInt "''tmdb:1:2''"]
  by (simp add: parseSeasonEpisode_def Let_def)

subsection \<open>The configuration decoder never throws\<close>

lemma parse_config_string_total: "\<exists>settings. parse_config_string P s = Inr settings"
  by (simp add: parse_config_string_def split: option.splits prod.splits)

lemma step_direct_origin: "step_direct P s = Some v \<Longrightarrow> \<exists>t. JSON_parse P t = Inr v"
  by (auto simp: step_direct_def split: sum.splits)

lemma step_url_origin: "step_url P s = (Some v, d) \<Longrightarrow> \<exists>t. JSON_parse P t = Inr v"
  by (auto simp: step_url_def split: sum.splits if_splits)

lemma step_base64_origin: "step_base64 P d = Some v \<Longrightarrow> \<exists>t. JSON_parse P t = Inr v"
  unfolding step_base64_def Let_def
  by (simp split: sum.splits if_splits option.splits) blast+

lemma parse_config_string_origin:
  assumes "parse_config_string P s = Inr v"
  shows "v = JObj [] \<or> (\<exists>t. JSON_parse P t = Inr v)"
proof (cases "step_direct P s")
  case (Some a)
  then show ?thesis
    using assms step_direct_origin [of P s a] by (simp add: parse_config_string_def)
next
  case None
  obtain r d where u: "step_url P s = (r, d)" by (cases "step_url P s")
  show ?thesis
  proof (cases r)
    case (Some b)
    then show ?thesis
      using assms None u step_url_origin [of P s b d] by (simp add: parse_config_string_def)
  next
    case N2: None
    show ?thesis
    proof (cases "step_base64 P d")
      case (Some c)
      then show ?thesis
        using assms None u N2 step_base64_origin [of P d c]
        by (simp add: parse_config_string_def)
    next
      case N3: None
      then show ?thesis
        using assms None u N2 by (simp add: parse_config_string_def)
    qed
  qed
qed

text \<open>
  C3. On every platform and for every argument, a string or not, \<^verbatim>\<open>parseConfigFromArgs\<close>
  returns a value and throws nothing: every call that can throw is inside a \<^verbatim>\<open>try\<close>
  whose \<^verbatim>\<open>catch\<close> goes on. When none of the three steps returns, the result is the
  empty settings object; and whatever it returns on a string is the empty object or a
  value that \<^verbatim>\<open>JSON.parse\<close> returned.
\<close>

theorem parseConfigFromArgs_total:
  "(\<exists>settings. parseConfigFromArgs P args = Inr settings)
   \<and> (step_direct P s = None \<and> fst (step_url P s) = None
        \<and> step_base64 P (snd (step_url P s)) = None
      \<longrightarrow> parseConfigFromArgs P (JStr s) = Inr (JObj []))
   \<and> (parseConfigFromArgs P (JStr s) = Inr v \<longrightarrow> v = JObj [] \<or> (\<exists>t. JSON_parse P t = Inr v))"
proof (intro conjI impI)
  show "\<exists>settings. parseConfigFromArgs P args = Inr settings"
    using parse_config_string_total [of P]
    by (cases args) (simp_all add: parseConfigFromArgs_def)
next
  assume "step_direct P s = None \<and> fst (step_url P s) = None
        \<and> step_base64 P (snd (step_url P s)) = None"
  then show "parseConfigFromArgs P (JStr s) = Inr (JObj [])"
    by (cases "step_url P s") (simp add: parseConfigFromArgs_def parse_config_string_def)
next
  assume "parseConfigFromArgs P (JStr s) = Inr v"
  then show "v = JObj [] \<or> (\<exists>t. JSON_parse P t = Inr v)"
    using parse_config_string_origin [of P s v]
    by (auto simp: parseConfigFromArgs_def split: if_splits)
qed

lemma not_config_direct: "step_direct node ''not-a-config!'' = None"
  by code_simp

lemma not_config_url: "step_url node ''not-a-config!'' = (None, ''not-a-config!'')"
  by code_simp

lemma not_config_base64: "step_base64 node ''not-a-config!'' = None"
  by code_simp

theorem parseConfigFromArgs_total_witness:
  "step_direct node ''not-a-config!'' = None \<and> fst (step_url node ''not-a-config!'') = None
   \<and> step_base64 node (snd (step_url node ''not-a-config!'')) = None
   \<and> parseConfigFromArgs node (JStr ''not-a-config!'') = Inr (JObj [])"
  using parseConfigFromArgs_total [of node "JStr ''not-a-config!''" "''not-a-config!''" "JObj []"]
  by (simp add: not_config_direct not_config_url not_config_base64)

subsection \<open>Base64: the decoder inverts the encoder\<close>

lemma str_includes_single: "str_includes s [c] = (c \<in> set s)"
  by (induction s) auto

lemma replace_3D_id: "CHR ''%'' \<notin> set s \<Longrightarrow> replace_3D s = s"
  by (induction s rule: replace_3D.induct) auto

lemma of_char_base64_char:
  "n < 64 \<Longrightarrow> (of_char (base64_char n) :: nat) =
     (if n < 26 then 65 + n else if n < 52 then 71 + n else if n < 62 then n - 4
      else if n = 62 then 43 else 47)"
  by (simp add: base64_char_def)

lemma char_eq_iff_nat: "(c = d) = ((of_char c :: nat) = of_char d)"
  by (metis char_of_char)

lemma base64_char_ok: "n < 64 \<Longrightarrow> is_base64_char (base64_char n)"
  unfolding is_base64_char_def Let_def
  by (simp add: of_char_base64_char char_eq_iff_nat [of _ "CHR ''+''"] char_eq_iff_nat [of _ "CHR ''/''"] char_eq_iff_nat [of _ "CHR ''=''"]) arith

lemma base64_char_not_pad: "n < 64 \<Longrightarrow> base64_char n \<noteq> CHR ''=''"
  by (simp add: char_eq_iff_nat [of _ "CHR ''=''"] of_char_base64_char) arith

lemma unbase64_base64_char: "n < 64 \<Longrightarrow> unbase64 (base64_char n) = Some n"
  unfolding unbase64_def Let_def
  by (simp add: of_char_base64_char char_eq_iff_nat [of _ "CHR ''+''"] char_eq_iff_nat [of _ "CHR ''/''"] char_eq_iff_nat [of _ "CHR ''-''"] char_eq_iff_nat [of _ "CHR ''_''"]) arith

lemma of_char_lt_256: "(of_char c :: nat) < 256"
  by simp

lemma div16_lt: "(b::nat) < 256 \<Longrightarrow> b div 16 < 16"
  by (simp add: div_less_iff_less_mult)

lemma div64_lt: "(b::nat) < 256 \<Longrightarrow> b div 64 < 4"
  by (simp add: div_less_iff_less_mult)

lemma div4_lt: "(b::nat) < 256 \<Longrightarrow> b div 4 < 64"
  by (simp add: div_less_iff_less_mult)

lemma sextet2_lt: "(y::nat) < 256 \<Longrightarrow> x mod 4 * 16 + y div 16 < 64"
proof -
  assume "y < 256"
  then have "y div 16 < 16" by (rule div16_lt)
  moreover have "x mod 4 < 4" by simp
  ultimately show ?thesis by linarith
qed

lemma sextet3_lt: "(z::nat) < 256 \<Longrightarrow> y mod 16 * 4 + z div 64 < 64"
proof -
  assume "z < 256"
  then have "z div 64 < 4" by (rule div64_lt)
  moreover have "y mod 16 < 16" by simp
  ultimately show ?thesis by linarith
qed

lemma bytes_sextets_lt: "n \<in> set (bytes_sextets bs) \<Longrightarrow> n < 64"
proof (induction bs arbitrary: n rule: bytes_sextets.induct)
  case (1 x y z r)
  note b = div4_lt [OF of_char_lt_256 [of x]] sextet2_lt [OF of_char_lt_256 [of y], of "of_char x"]
    sextet3_lt [OF of_char_lt_256 [of z], of "of_char y"]
  from 1 b show ?case by auto
next
  case (2 x y)
  note b = div4_lt [OF of_char_lt_256 [of x]] sextet2_lt [OF of_char_lt_256 [of y], of "of_char x"]
  have "(of_char y :: nat) mod 16 < 16" by simp
  then have "(of_char y :: nat) mod 16 * 4 < 64" by linarith
  with 2 b show ?case by auto
next
  case (3 x)
  note b = div4_lt [OF of_char_lt_256 [of x]]
  have "(of_char x :: nat) mod 4 < 4" by simp
  then have "(of_char x :: nat) mod 4 * 16 < 64" by linarith
  with 3 b show ?case by auto
next
  case 4
  then show ?case by simp
qed

lemma byte0_eq: "(y::nat) < 256 \<Longrightarrow> x div 4 * 4 + (x mod 4 * 16 + y div 16) div 16 = x"
  by (simp add: div16_lt)

lemma byte1_eq: "(y::nat) < 256 \<Longrightarrow> (z::nat) < 256 \<Longrightarrow>
    (x mod 4 * 16 + y div 16) mod 16 * 16 + (y mod 16 * 4 + z div 64) div 4 = y"
  by (simp add: div64_lt div16_lt)

lemma byte2_eq: "(z::nat) < 256 \<Longrightarrow> (y mod 16 * 4 + z div 64) mod 4 * 64 + z mod 64 = z"
  by (simp add: div64_lt)

lemma sextets_bytes_inverse: "sextets_bytes (bytes_sextets bs) = bs"
proof (induction bs rule: bytes_sextets.induct)
  case (1 x y z r)
  show ?case
    unfolding bytes_sextets.simps sextets_bytes.simps
      byte0_eq [OF of_char_lt_256] byte1_eq [OF of_char_lt_256 of_char_lt_256]
      byte2_eq [OF of_char_lt_256]
    using 1 by simp
next
  case (2 x y)
  have b: "(x mod 4 * 16 + y div 16) mod 16 * 16 + (y mod 16 * 4) div 4 = y"
    if "y < 256" for x y :: nat
    using byte1_eq [of y 0 x] that by simp
  show ?case
    unfolding bytes_sextets.simps sextets_bytes.simps
      byte0_eq [OF of_char_lt_256] b [OF of_char_lt_256]
    by simp
next
  case (3 x)
  have a: "x div 4 * 4 + (x mod 4 * 16) div 16 = x" for x :: nat
    using byte0_eq [of 0 x] by simp
  show ?case
    unfolding bytes_sextets.simps sextets_bytes.simps a by simp
next
  case 4
  show ?case by simp
qed

lemma length_base64_encode_mod4:
  "(length (bytes_sextets bs) + (3 - length bs mod 3) mod 3) mod 4 = 0"
  by (induction bs rule: bytes_sextets.induct) simp_all

lemma pad4_fill:
  "k < 4 \<Longrightarrow> (length xs + k) mod 4 = 0 \<Longrightarrow> pad4 xs = xs @ replicate k CHR ''=''"
proof (induction k arbitrary: xs)
  case 0
  then show ?case by (subst pad4.simps) simp
next
  case (Suc k)
  have "length xs mod 4 \<noteq> 0"
  proof
    assume z: "length xs mod 4 = 0"
    have "(length xs + Suc k) mod 4 = (length xs mod 4 + Suc k) mod 4"
      by (simp only: mod_add_left_eq)
    also have "\<dots> = Suc k" using z Suc.prems(1) by simp
    finally show False using Suc.prems(2) by simp
  qed
  then have "pad4 xs = pad4 (xs @ ''='')" by (subst pad4.simps) simp
  also have "\<dots> = (xs @ ''='') @ replicate k CHR ''=''"
    using Suc.prems by (intro Suc.IH) simp_all
  finally show ?case by (simp add: replicate_append_same)
qed

lemma strip_padding_append:
  assumes "CHR ''='' \<notin> set xs"
  shows "strip_padding (xs @ replicate k CHR ''='') = xs"
proof -
  have a: "dropWhile (\<lambda>c. c = CHR ''='') (replicate k CHR ''='' @ ys) = dropWhile (\<lambda>c. c = CHR ''='') ys"
    for ys
    by (induction k) simp_all
  have b: "dropWhile (\<lambda>c. c = CHR ''='') (rev xs) = rev xs"
    using assms by (cases "rev xs") (auto simp: dropWhile_eq_self_iff dest: arg_cong [where f = set])
  show ?thesis by (simp add: strip_padding_def a b)
qed

lemma takeWhile_body:
  assumes "CHR ''='' \<notin> set xs"
  shows "takeWhile (\<lambda>c. c \<noteq> CHR ''='') (xs @ replicate k CHR ''='') = xs"
proof -
  have "takeWhile (\<lambda>c. c \<noteq> CHR ''='') (replicate k CHR ''='') = []"
    by (cases k) simp_all
  then show ?thesis using assms by (induction xs) auto
qed

lemma map_filter_unbase64:
  "(\<And>n. n \<in> set ns \<Longrightarrow> n < 64) \<Longrightarrow> List.map_filter unbase64 (map base64_char ns) = ns"
  by (induction ns) (simp_all add: map_filter_simps unbase64_base64_char)

lemma body_no_pad: "CHR ''='' \<notin> set (map base64_char (bytes_sextets bs))"
  using base64_char_not_pad bytes_sextets_lt by fastforce

lemma pad_lt4: "(3 - n mod 3) mod 3 < (4::nat)"
proof -
  have "(3 - n mod 3) mod 3 < 3" by simp
  then show ?thesis by linarith
qed

text \<open>The decoder inverts the encoder, on every sequence of bytes.\<close>

lemma Buffer_from_base64_encode: "Buffer_from_base64 (base64_encode bs) = bs"
  by (simp add: Buffer_from_base64_def base64_encode_def takeWhile_body [OF body_no_pad]
        map_filter_unbase64 bytes_sextets_lt sextets_bytes_inverse)

text \<open>Stripping the padding of an encoded text and padding it again gives the text back.\<close>

lemma pad4_strip_padding_encode: "pad4 (strip_padding (base64_encode bs)) = base64_encode bs"
proof -
  have "strip_padding (base64_encode bs) = map base64_char (bytes_sextets bs)"
    by (simp add: base64_encode_def strip_padding_append [OF body_no_pad])
  moreover have "pad4 (map base64_char (bytes_sextets bs)) = base64_encode bs"
    unfolding base64_encode_def
    using length_base64_encode_mod4 [of bs] by (intro pad4_fill pad_lt4) simp
  ultimately show ?thesis by simp
qed

lemma base64_encode_alphabet: "list_all is_base64_char (base64_encode bs)"
proof -
  have "is_base64_char CHR ''=''" by (simp add: is_base64_char_def)
  then show ?thesis
    by (auto simp: base64_encode_def list_all_iff intro: base64_char_ok bytes_sextets_lt)
qed

lemma base64_encode_no_percent: "CHR ''%'' \<notin> set (base64_encode bs)"
proof
  assume "CHR ''%'' \<in> set (base64_encode bs)"
  then have "is_base64_char CHR ''%''"
    using base64_encode_alphabet [of bs] by (simp add: list_all_iff)
  then show False by (simp add: is_base64_char_def)
qed

lemma base64_encode_brace: "\<exists>r. base64_encode (CHR ''{'' # t) = CHR ''e'' # r"
proof (cases t)
  case Nil
  then show ?thesis
    by (simp add: base64_encode_def base64_char_def char_eq_iff_nat [of _ "CHR ''e''"])
next
  case (Cons y t')
  then show ?thesis
    by (cases t')
       (simp_all add: base64_encode_def base64_char_def char_eq_iff_nat [of _ "CHR ''e''"])
qed

subsection \<open>Round trip through the base64 step\<close>

lemma base64_stage:
  assumes json: "JSON_parse P doc = Inr settings"
    and obj: "startsWith doc ''{''" "CHR ''}'' \<in> set doc"
    and not_json: "JSON_parse P (base64_encode doc) = Inl e"
    and b64: "base64_utf8 P (base64_encode doc) = Inr doc"
  shows "step_direct P (base64_encode doc) = None"
    and "step_url P (base64_encode doc) = (None, base64_encode doc)"
    and "step_base64 P (base64_encode doc) = Some settings"
    and "parseConfigFromArgs P (JStr (base64_encode doc)) = Inr settings"
proof -
  let ?a = "base64_encode doc"
  obtain t where doc: "doc = CHR ''{'' # t"
    using obj(1) by (cases doc) (auto simp: startsWith_def)
  obtain r where a: "?a = CHR ''e'' # r"
    unfolding doc using base64_encode_brace by blast
  show 1: "step_direct P ?a = None"
    by (simp add: step_direct_def not_json)
  show 2: "step_url P ?a = (None, ?a)"
    by (simp add: step_url_def str_includes_single base64_encode_no_percent)
  have "looks_base64 ?a"
    using a base64_encode_alphabet [of doc] by (simp add: looks_base64_def)
  moreover have "str_includes doc ''{''" "str_includes doc ''}''"
    using obj(2) by (simp_all add: str_includes_single doc)
  ultimately show 3: "step_base64 P ?a = Some settings"
    by (simp add: step_base64_def Let_def replace_3D_id [OF base64_encode_no_percent]
          pad4_strip_padding_encode b64 json)
  show "parseConfigFromArgs P (JStr ?a) = Inr settings"
    using 1 2 3 by (simp add: parseConfigFromArgs_def parse_config_string_def a)
qed

lemma JSON_parse_node_e: "JSON_parse_node (CHR ''e'' # t) = Inl SyntaxError"
  by (simp add: JSON_parse_node_def is_json_ws_def startsWith_def json_number_def
        json_digits_def is_digit_def Let_def)

lemma node_base64_round_trip:
  assumes "JSON_parse_node doc = Inr settings"
    and "startsWith doc ''{''" and "CHR ''}'' \<in> set doc"
  shows "parseConfigFromArgs node (JStr (base64_encode doc)) = Inr settings"
proof -
  obtain t where "doc = CHR ''{'' # t"
    using assms(2) by (cases doc) (auto simp: startsWith_def)
  then obtain r where a: "base64_encode doc = CHR ''e'' # r"
    using base64_encode_brace by blast
  have nj: "JSON_parse node (base64_encode doc) = Inl SyntaxError"
    by (simp add: node_def a JSON_parse_node_e)
  have j: "JSON_parse node doc = Inr settings"
    by (simp add: node_def assms)
  have b: "base64_utf8 node (base64_encode doc) = Inr doc"
    by (simp add: node_def Buffer_from_base64_encode)
  show ?thesis
    by (rule base64_stage(4) [OF j assms(2,3) nj b])
qed

lemma json_string_plain:
  "needs_no_escape s \<Longrightarrow> json_string (s @ CHR 0x22 # r) = Some (s, r)"
  by (induction s) (auto simp: needs_no_escape_def)

lemma json_value_string:
  assumes "needs_no_escape v"
  shows "json_value (Suc n) (json_quote v @ r) = Some (JStr v, r)"
  using json_string_plain [OF assms, of r]
  by (simp add: json_quote_def is_json_ws_def startsWith_def)

lemma fold_update_fresh:
  "distinct (map fst kvs) \<Longrightarrow> fst ` set acc \<inter> fst ` set kvs = {} \<Longrightarrow>
     fold (\<lambda>(k, v). AList.update k (JStr v)) kvs acc = acc @ map (\<lambda>(k, v). (k, JStr v)) kvs"
proof (induction kvs arbitrary: acc)
  case Nil
  then show ?case by simp
next
  case (Cons kv kvs)
  obtain k v where kv: "kv = (k, v)" by (cases kv)
  have f: "AList.update k (JStr v) acc = acc @ [(k, JStr v)]"
    using Cons.prems(2) by (induction acc) (auto simp: kv)
  have "fst ` set (acc @ [(k, JStr v)]) \<inter> fst ` set kvs = {}"
    using Cons.prems by (auto simp: kv)
  with Cons show ?case by (simp add: kv f)
qed


lemma json_members_step:
  assumes "needs_no_escape k" and "needs_no_escape v" and "c = CHR '','' \<or> c = CHR ''}''"
  shows "json_members (Suc (Suc m)) acc (json_quote k @ '':'' @ json_quote v @ c # r) =
     (if c = CHR '','' then json_members (Suc m) (AList.update k (JStr v) acc) r
      else Some (JObj (AList.update k (JStr v) acc), r))"
proof -
  have k: "json_string (k @ CHR 0x22 # '':'' @ json_quote v @ c # r)
             = Some (k, '':'' @ json_quote v @ c # r)"
    by (rule json_string_plain [OF assms(1)])
  have v: "json_value (Suc m) (json_quote v @ c # r) = Some (JStr v, c # r)"
    by (rule json_value_string [OF assms(2)])
  have c: "\<not> is_json_ws c" using assms(3) by (auto simp: is_json_ws_def)
  show ?thesis
    using assms(3) k v c
    by (simp add: json_quote_def is_json_ws_def startsWith_def del: json_value.simps)
       (auto simp: json_quote_def)
qed

lemma json_members_flat:
  assumes "kvs \<noteq> []"
    and "\<And>k v. (k, v) \<in> set kvs \<Longrightarrow> needs_no_escape k \<and> needs_no_escape v"
    and "length kvs < n"
  shows "json_members n acc (stringify_members kvs @ CHR ''}'' # r)
       = Some (JObj (fold (\<lambda>(k, v). AList.update k (JStr v)) kvs acc), r)"
  using assms
proof (induction kvs arbitrary: n acc rule: stringify_members.induct)
  case 1
  then show ?case by simp
next
  case (2 k v)
  then obtain m where n: "n = Suc (Suc m)"
    by (cases n; cases "n - 1") auto
  have e: "needs_no_escape k" "needs_no_escape v" using 2(2) by auto
  show ?case
    unfolding n using json_members_step [OF e, of "CHR ''}''" m acc r]
    by simp
next
  case (3 k v kv kvs)
  then obtain m where n: "n = Suc (Suc m)"
    by (cases n; cases "n - 1") auto
  have e: "needs_no_escape k" "needs_no_escape v" using 3(3) by auto
  have "json_members (Suc m) (AList.update k (JStr v) acc)
          (stringify_members (kv # kvs) @ CHR ''}'' # r)
        = Some (JObj (fold (\<lambda>(k, v). AList.update k (JStr v)) (kv # kvs)
                         (AList.update k (JStr v) acc)), r)"
    using 3(3,4) by (intro 3(1)) (auto simp: n)
  then show ?case
    unfolding n
    using json_members_step [OF e, of "CHR '',''" m acc
        "stringify_members (kv # kvs) @ CHR ''}'' # r"]
    by simp
qed


lemma length_stringify_members: "length kvs \<le> length (stringify_members kvs)"
  by (induction kvs rule: stringify_members.induct) (simp_all add: json_quote_def)

lemma stringify_members_quote: "kvs \<noteq> [] \<Longrightarrow> \<exists>r. stringify_members kvs = CHR 0x22 # r"
  by (induction kvs rule: stringify_members.induct) (simp_all add: json_quote_def)

text \<open>The parser reads back what \<open>JSON_stringify\<close> writes.\<close>

lemma JSON_parse_stringify:
  assumes "distinct (map fst kvs)"
    and "\<And>k v. (k, v) \<in> set kvs \<Longrightarrow> needs_no_escape k \<and> needs_no_escape v"
  shows "JSON_parse_node (JSON_stringify kvs) = Inr (JObj (map (\<lambda>(k, v). (k, JStr v)) kvs))"
proof (cases "kvs = []")
  case True
  then show ?thesis
    by (simp add: JSON_parse_node_def JSON_stringify_def is_json_ws_def startsWith_def)
next
  case False
  obtain r where q: "stringify_members kvs = CHR 0x22 # r"
    using stringify_members_quote [OF False] by blast
  have l: "length kvs < length (JSON_stringify kvs)"
    using length_stringify_members [of kvs] by (simp add: JSON_stringify_def)
  have m: "json_members (length (JSON_stringify kvs)) [] (stringify_members kvs @ CHR ''}'' # [])
        = Some (JObj (fold (\<lambda>(k, v). AList.update k (JStr v)) kvs []), [])"
    by (rule json_members_flat [OF False assms(2) l])
  have f: "fold (\<lambda>(k, v). AList.update k (JStr v)) kvs [] = map (\<lambda>(k, v). (k, JStr v)) kvs"
    using fold_update_fresh [OF assms(1), of "[]"] by simp
  have "json_value (Suc (length (JSON_stringify kvs))) (JSON_stringify kvs)
        = json_members (length (JSON_stringify kvs)) [] (stringify_members kvs @ ''}'')"
    by (simp add: JSON_stringify_def is_json_ws_def startsWith_def q)
  then show ?thesis
    using m f by (simp add: JSON_parse_node_def)
qed

text \<open>
  On the model of Node, every settings object with string values comes back from the
  base64 encoding of its JSON text.
\<close>

lemma node_settings_round_trip:
  assumes "distinct (map fst kvs)"
    and "\<And>k v. (k, v) \<in> set kvs \<Longrightarrow> needs_no_escape k \<and> needs_no_escape v"
  shows "parseConfigFromArgs node (JStr (base64_encode (JSON_stringify kvs)))
       = Inr (JObj (map (\<lambda>(k, v). (k, JStr v)) kvs))"
proof (rule node_base64_round_trip)
  show "JSON_parse_node (JSON_stringify kvs) = Inr (JObj (map (\<lambda>(k, v). (k, JStr v)) kvs))"
    by (rule JSON_parse_stringify [OF assms])
  show "startsWith (JSON_stringify kvs) ''{''"
    by (simp add: JSON_stringify_def startsWith_def)
  show "CHR ''}'' \<in> set (JSON_stringify kvs)"
    by (simp add: JSON_stringify_def)
qed

text \<open>
  C4. Let \<open>doc\<close> be the JSON text of a settings object: it starts with \<open>{\<close>, holds
  a \<open>}\<close>, and \<^verbatim>\<open>JSON.parse\<close> reads \<open>settings\<close> from it. On a platform whose base64
  decoding gives \<open>doc\<close> back from its standard encoding, and whose \<^verbatim>\<open>JSON.parse\<close> does
  not accept the encoded text itself, \<^verbatim>\<open>parseConfigFromArgs\<close> returns \<open>settings\<close> on the
  encoded text, and it does so in the base64 step: the direct step and the URL step
  return nothing. The concrete case is the input \<^verbatim>\<open>eyJ0bWRiQXBpS2V5IjoiWCJ9\<close>.
\<close>

theorem base64_round_trip:
  assumes "JSON_parse P doc = Inr settings"
    and "startsWith doc ''{''" and "CHR ''}'' \<in> set doc"
    and "JSON_parse P (base64_encode doc) = Inl e"
    and "base64_utf8 P (base64_encode doc) = Inr doc"
  shows "step_direct P (base64_encode doc) = None
       \<and> fst (step_url P (base64_encode doc)) = None
       \<and> step_base64 P (base64_encode doc) = Some settings
       \<and> parseConfigFromArgs P (JStr (base64_encode doc)) = Inr settings"
  using base64_stage [OF assms] by simp

theorem base64_round_trip_witness:
  \<open>base64_encode ''{"tmdbApiKey":"X"}'' = ''eyJ0bWRiQXBpS2V5IjoiWCJ9''
   \<and> step_direct node ''eyJ0bWRiQXBpS2V5IjoiWCJ9'' = None
   \<and> fst (step_url node ''eyJ0bWRiQXBpS2V5IjoiWCJ9'') = None
   \<and> step_base64 node ''eyJ0bWRiQXBpS2V5IjoiWCJ9'' = Some (JObj [(''tmdbApiKey'', JStr ''X'')])
   \<and> parseConfigFromArgs node (JStr ''eyJ0bWRiQXBpS2V5IjoiWCJ9'')
       = Inr (JObj [(''tmdbApiKey'', JStr ''X'')])\<close>
proof -
  have enc: \<open>base64_encode ''{"tmdbApiKey":"X"}'' = ''eyJ0bWRiQXBpS2V5IjoiWCJ9''\<close>
    by code_simp
  have h1: \<open>JSON_parse node ''{"tmdbApiKey":"X"}'' = Inr (JObj [(''tmdbApiKey'', JStr ''X'')])\<close>
    by code_simp
  have h2: \<open>startsWith ''{"tmdbApiKey":"X"}'' ''{''\<close>
    by (simp add: startsWith_def)
  have h3: \<open>CHR ''}'' \<in> set ''{"tmdbApiKey":"X"}''\<close>
    by simp
  have h4: \<open>JSON_parse node (base64_encode ''{"tmdbApiKey":"X"}'') = Inl SyntaxError\<close>
    unfolding enc by code_simp
  have h5: \<open>base64_utf8 node (base64_encode ''{"tmdbApiKey":"X"}'') = Inr ''{"tmdbApiKey":"X"}''\<close>
    unfolding enc by code_simp
  show ?thesis
    using base64_round_trip [OF h1 h2 h3 h4 h5] enc by simp
qed

subsection \<open>A failed refresh keeps the cache\<close>

lemma update_try_unchanged:
  "update_try P now result c = (r, c') \<Longrightarrow> r \<noteq> Inr (Some True) \<Longrightarrow> c' = c"
  by (auto simp: update_try_def split: sum.splits if_splits)

lemma update_try_success:
  "update_try P now result c = (Inr (Some b), c') \<Longrightarrow>
     b \<and> (\<exists>stdout channels chs updatedLinks.
            result = Inr stdout \<and> stdout \<noteq> [] \<and> JSON_parse P stdout = Inr channels
            \<and> js_iterate channels = Inr chs \<and> collect_links chs [] = Inr updatedLinks
            \<and> c' = c\<lparr>links := updatedLinks, timestamp := now\<rparr>)"
  by (auto simp: update_try_def split: sum.splits if_splits)

lemma resume_False:
  "updateVavooCache_resume P now result c = (False, c') \<Longrightarrow> c' = c\<lparr>updating := False\<rparr>"
  apply (cases "update_try P now result c")
  subgoal for r c1
    apply (cases r)
     apply (auto simp: updateVavooCache_resume_def dest: update_try_unchanged update_try_success split: option.splits)
    done
  done

lemma resume_updating: "updating (snd (updateVavooCache_resume P now result c)) = False"
  by (cases "update_try P now result c")
     (auto simp: updateVavooCache_resume_def split: sum.splits option.splits)

lemma start_cases:
  "updateVavooCache_start c = (if updating c then (Some False, c) else (None, c\<lparr>updating := True\<rparr>))"
  by (simp add: updateVavooCache_start_def)

lemma resume_links_timestamp:
  "fst (updateVavooCache_resume P now result c) = False \<Longrightarrow>
     links (snd (updateVavooCache_resume P now result c)) = links c
     \<and> timestamp (snd (updateVavooCache_resume P now result c)) = timestamp c"
  using resume_False [of P now result c "snd (updateVavooCache_resume P now result c)"]
  by (cases "updateVavooCache_resume P now result c") simp

lemma resume_True:
  assumes "fst (updateVavooCache_resume P now result c) = True"
  shows "timestamp (snd (updateVavooCache_resume P now result c)) = now
       \<and> (\<exists>stdout channels chs. result = Inr stdout \<and> stdout \<noteq> []
              \<and> JSON_parse P stdout = Inr channels \<and> js_iterate channels = Inr chs
              \<and> collect_links chs [] = Inr (links (snd (updateVavooCache_resume P now result c))))"
proof -
  obtain r c' where t: "update_try P now result c = (r, c')"
    by (cases "update_try P now result c")
  from assms t obtain b where r: "r = Inr (Some b)"
    by (cases r) (auto simp: updateVavooCache_resume_def split: option.splits)
  from update_try_success [OF t [unfolded r]] t r show ?thesis
    by (auto simp: updateVavooCache_resume_def)
qed

lemma resume_failures:
  assumes "(\<exists>e. result = Inl e) \<or> result = Inr []
     \<or> (\<exists>stdout e. result = Inr stdout \<and> JSON_parse P stdout = Inl e)"
  shows "fst (updateVavooCache_resume P now result c) = False"
proof -
  from assms have "\<exists>r. update_try P now result c = (r, c) \<and> r \<noteq> Inr (Some True)"
    by (auto simp: update_try_def)
  then show ?thesis
    by (auto simp: updateVavooCache_resume_def split: sum.splits option.splits)
qed

text \<open>
  C6. A call of \<^verbatim>\<open>updateVavooCache\<close> that returns \<^verbatim>\<open>false\<close> leaves the link map and
  the timestamp as they were, whether it runs alone or resumes after other events. It
  returns \<^verbatim>\<open>false\<close> when the resolver process is rejected (error, non-zero exit,
  timeout), when its output is empty, and when \<^verbatim>\<open>JSON.parse\<close> throws on its output. A
  call that returns \<^verbatim>\<open>true\<close> has set the timestamp to the current time and replaced
  the link map by the map built from the whole output.
\<close>

theorem refresh_failure_keeps_cache:
  "(fst (updateVavooCache P now result c) = False \<longrightarrow>
      links (snd (updateVavooCache P now result c)) = links c
      \<and> timestamp (snd (updateVavooCache P now result c)) = timestamp c)
   \<and> (fst (updateVavooCache_resume P now result c) = False \<longrightarrow>
      links (snd (updateVavooCache_resume P now result c)) = links c
      \<and> timestamp (snd (updateVavooCache_resume P now result c)) = timestamp c)
   \<and> ((\<exists>e. result = Inl e) \<or> result = Inr []
        \<or> (\<exists>stdout e. result = Inr stdout \<and> JSON_parse P stdout = Inl e) \<longrightarrow>
      fst (updateVavooCache P now result c) = False)
   \<and> (fst (updateVavooCache P now result c) = True \<longrightarrow>
      timestamp (snd (updateVavooCache P now result c)) = now
      \<and> (\<exists>stdout channels chs. result = Inr stdout \<and> stdout \<noteq> []
             \<and> JSON_parse P stdout = Inr channels \<and> js_iterate channels = Inr chs
             \<and> collect_links chs [] = Inr (links (snd (updateVavooCache P now result c)))))"
proof -
  have a: "fst (updateVavooCache P now result c) = False \<longrightarrow>
      links (snd (updateVavooCache P now result c)) = links c
      \<and> timestamp (snd (updateVavooCache P now result c)) = timestamp c"
    using resume_links_timestamp [of P now result "c\<lparr>updating := True\<rparr>"]
    by (auto simp: updateVavooCache_def start_cases split: if_splits)
  have b: "fst (updateVavooCache_resume P now result c) = False \<longrightarrow>
      links (snd (updateVavooCache_resume P now result c)) = links c
      \<and> timestamp (snd (updateVavooCache_resume P now result c)) = timestamp c"
    using resume_links_timestamp [of P now result c] by blast
  have c: "(\<exists>e. result = Inl e) \<or> result = Inr []
        \<or> (\<exists>stdout e. result = Inr stdout \<and> JSON_parse P stdout = Inl e) \<longrightarrow>
      fst (updateVavooCache P now result c) = False"
    using resume_failures [of result P now "c\<lparr>updating := True\<rparr>"]
    by (auto simp: updateVavooCache_def start_cases)
  have d: "fst (updateVavooCache P now result c) = True \<longrightarrow>
      timestamp (snd (updateVavooCache P now result c)) = now
      \<and> (\<exists>stdout channels chs. result = Inr stdout \<and> stdout \<noteq> []
             \<and> JSON_parse P stdout = Inr channels \<and> js_iterate channels = Inr chs
             \<and> collect_links chs [] = Inr (links (snd (updateVavooCache P now result c))))"
    using resume_True [of P now result "c\<lparr>updating := True\<rparr>"]
    by (simp add: updateVavooCache_def start_cases split: if_splits)
  from a b c d show ?thesis by blast
qed

lemma refresh_unparseable:
  "updateVavooCache node 7 (Inr ''not json'')
     \<lparr>timestamp = 5, links = [(JStr ''Old'', JStr ''http://old/1'')], updating = False\<rparr>
   = (False, \<lparr>timestamp = 5, links = [(JStr ''Old'', JStr ''http://old/1'')], updating = False\<rparr>)"
  by code_simp

lemma refresh_success:
  \<open>updateVavooCache node 7 (Inr ''[{"name":"Channel A","url":"http://x/y"}]'')
     \<lparr>timestamp = 5, links = [(JStr ''Old'', JStr ''http://old/1'')], updating = False\<rparr>
   = (True, \<lparr>timestamp = 7, links = [(JStr ''Channel A'', JStr ''http://x/y'')],
             updating = False\<rparr>)\<close>
  by code_simp

lemma refresh_unparseable_node: "JSON_parse node ''not json'' = Inl SyntaxError"
  by code_simp

theorem refresh_failure_keeps_cache_witness:
  \<open>JSON_parse node ''not json'' = Inl SyntaxError
   \<and> updateVavooCache node 7 (Inr ''not json'')
       \<lparr>timestamp = 5, links = [(JStr ''Old'', JStr ''http://old/1'')], updating = False\<rparr>
     = (False, \<lparr>timestamp = 5, links = [(JStr ''Old'', JStr ''http://old/1'')],
                updating = False\<rparr>)
   \<and> updateVavooCache node 7 (Inr ''[{"name":"Channel A","url":"http://x/y"}]'')
       \<lparr>timestamp = 5, links = [(JStr ''Old'', JStr ''http://old/1'')], updating = False\<rparr>
     = (True, \<lparr>timestamp = 7, links = [(JStr ''Channel A'', JStr ''http://x/y'')],
               updating = False\<rparr>)\<close>
  using refresh_failure_keeps_cache [of node 7 "Inr ''not json''"
      "\<lparr>timestamp = 5, links = [(JStr ''Old'', JStr ''http://old/1'')], updating = False\<rparr>"]
  by (simp add: refresh_unparseable refresh_success refresh_unparseable_node)

subsection \<open>Single flight\<close>

lemma step_single_flight:
  assumes "suspended s \<le> 1" and "updating (cache s) = (suspended s = 1)"
  shows "suspended (step P s ev) \<le> 1
       \<and> updating (cache (step P s ev)) = (suspended (step P s ev) = 1)"
  using assms
  by (cases ev) (auto simp: updateVavooCache_start_def resume_updating)

lemma run_snoc: "run P (evs @ [ev]) = step P (run P evs) ev"
  by (simp add: run_def)

lemma run_single_flight:
  "suspended (run P evs) \<le> 1 \<and> updating (cache (run P evs)) = (suspended (run P evs) = 1)"
proof (induction evs rule: rev_induct)
  case Nil
  show ?case by (simp add: run_def server_init_def vavooCache_def)
next
  case (snoc ev evs)
  then show ?case
    unfolding run_snoc by (intro step_single_flight) simp_all
qed

text \<open>
  C5. After every sequence of events, at most one call of \<^verbatim>\<open>updateVavooCache\<close> is
  suspended at its \<^verbatim>\<open>await\<close>. While one is, a further call returns \<^verbatim>\<open>false\<close> before
  any \<^verbatim>\<open>await\<close>, and leaves the whole state as it was: no resolver process is started
  and the cache is not touched. While none is, a call starts exactly one resolver
  process.
\<close>

theorem single_flight_refresh:
  "suspended (run P evs) \<le> 1
   \<and> (suspended (run P evs) = 1 \<longrightarrow>
        updateVavooCache_start (cache (run P evs)) = (Some False, cache (run P evs))
        \<and> run P (evs @ [Refresh]) = run P evs)
   \<and> (suspended (run P evs) = 0 \<longrightarrow>
        fst (updateVavooCache_start (cache (run P evs))) = None
        \<and> exec_calls (run P (evs @ [Refresh])) = exec_calls (run P evs) + 1
        \<and> suspended (run P (evs @ [Refresh])) = 1)"
  using run_single_flight [of P evs]
  by (auto simp: run_snoc updateVavooCache_start_def)

theorem single_flight_refresh_witness:
  "suspended (run node [Load 5 [], Refresh]) = 1
   \<and> run node [Load 5 [], Refresh, Refresh] = run node [Load 5 [], Refresh]
   \<and> exec_calls (run node [Load 5 [], Refresh, Refresh]) = 1
   \<and> updateVavooCache_start (cache (run node [Load 5 [], Refresh]))
       = (Some False, cache (run node [Load 5 [], Refresh]))"
  using single_flight_refresh [of node "[Load 5 [], Refresh]"]
  by (simp add: run_def server_init_def vavooCache_def updateVavooCache_start_def)

subsection \<open>Primary and secondary providers\<close>

lemma vixStreams_usable: "(vixStreams infos \<noteq> []) = (\<exists>st \<in> set infos. streamUrl st \<noteq> None)"
  by (induction infos) (auto split: option.splits)

lemma imdb_tmdb_not_anime:
  "is_imdb_or_tmdb ident \<Longrightarrow> \<not> startsWith ident ''kitsu:'' \<and> \<not> startsWith ident ''mal:''
     \<and> \<not> startsWith ident ''tv:''"
  by (cases ident; cases "tl ident") (auto simp: is_imdb_or_tmdb_def startsWith_def)

lemma primary_first_fallback:
  assumes "type \<noteq> ''tv''" and "is_imdb_or_tmdb ident"
    and "getStreamContent prov ident type
           (finalConfig configCache env (bothLinks configCache = Some ''on'')) = Inr (Some infos)"
    and "\<exists>st \<in> set infos. streamUrl st \<noteq> None"
  shows "streamHandler P prov env configCache tvChannels ident type = ([VixSrc], Inr (vixStreams infos))"
proof -
  have v: "vixStreams infos \<noteq> []" using assms(4) by (simp add: vixStreams_usable)
  have i: "startsWith ident ''tt'' \<or> startsWith ident ''tmdb:''"
    using assms(2) by (simp add: is_imdb_or_tmdb_def)
  show ?thesis
    using assms(1,3) v i imdb_tmdb_not_anime [OF assms(2)]
    by (simp add: streamHandler_def Let_def)
qed

lemma merged_imdb_tmdb:
  assumes "type \<noteq> ''tv''" and "is_imdb_or_tmdb ident"
    and "getStreamContent prov ident type
           (finalConfig config env
              (if bothLinks config \<noteq> None then bothLinks config = Some ''on''
               else map_option toLowerCase (BOTHLINK env) = Some ''true'')) = Inr (Some infos)"
  shows "streamHandler_merged prov env config tvChannels ident type =
     (fst (anime_block prov env config ident) @ [VixSrc],
      Inr (snd (anime_block prov env config ident) @ vixStreams infos))"
  using assms(1,3) imdb_tmdb_not_anime [OF assms(2)]
  by (cases "anime_block prov env config ident")
     (simp add: streamHandler_merged_def streamHandler_try_def Let_def)

lemma anime_block_imdb_tmdb:
  assumes "is_imdb_or_tmdb ident"
  shows "fst (anime_block prov env config ident) =
     (if provider_enabled (animeunityEnabled config) (ANIMEUNITY_ENABLED env)
      then [AnimeUnity] else [])
     @ (if provider_enabled (animesaturnEnabled config) (ANIMESATURN_ENABLED env)
        then [AnimeSaturn] else [])"
proof -
  have i: "startsWith ident ''tt'' \<or> startsWith ident ''tmdb:''"
    using assms by (simp add: is_imdb_or_tmdb_def)
  then have r: "anime_request_of ident \<noteq> None"
    using imdb_tmdb_not_anime [OF assms]
    by (auto simp: anime_request_of_def imdb_tmdb_request_def Let_def)
  then obtain req where "anime_request_of ident = Some req" by blast
  then show ?thesis
    using i by (simp add: anime_block_def Let_def anime_providers_def animeConfig_def)
qed

lemma example_merged: "streamHandler_merged example_providers example_env example_config [] ''tt0111161'' ''movie''
   = ([AnimeUnity, AnimeSaturn, VixSrc],
      Inr [\<lparr>stream_name = Some ''StreamViX AU'', stream_title = Some ''Episode 1'',
        stream_url = ''https://au.example/ep/1'', stream_referer = None\<rparr>,
       \<lparr>stream_name = Some ''StreamViX Vx'', stream_title = Some ''Movie 1080p'',
        stream_url = ''https://vix.example/playlist/1'', stream_referer = Some ''https://vix.example/''\<rparr>])"
  by code_simp

lemma example_failing: "streamHandler node failing_primary example_env example_config [] ''tt0111161'' ''movie''
   = ([VixSrc], Inl (Rejected ''fetch failed''))"
  by code_simp

lemma example_failing_merged: "streamHandler_merged failing_primary example_env example_config [] ''tt0111161'' ''movie''
   = ([AnimeUnity, AnimeSaturn, VixSrc], Inr [])"
  by code_simp



text \<open>
  C1, as stated, on the handler of lines 1687-1975. The id is an IMDB id, the primary
  provider returns one usable candidate, and both anime providers are enabled: the
  handler calls them before VixSrc and returns the AnimeUnity stream ahead of the
  VixSrc one.
\<close>

theorem primary_only_counterexample:
  "is_imdb_or_tmdb ''tt0111161''
   \<and> getStreamContent example_providers ''tt0111161'' ''movie''
         (finalConfig example_config example_env False) = Inr (Some [example_info])
   \<and> streamUrl example_info \<noteq> None
   \<and> fst (streamHandler_merged example_providers example_env example_config []
             ''tt0111161'' ''movie'') = [AnimeUnity, AnimeSaturn, VixSrc]
   \<and> snd (streamHandler_merged example_providers example_env example_config []
             ''tt0111161'' ''movie'') \<noteq> Inr (vixStreams [example_info])"
  by (simp add: example_merged is_imdb_or_tmdb_def startsWith_def)
     (simp add: example_providers_def example_info_def)

text \<open>
  C1, amended. For an IMDB or TMDB id of a request that is not a live-TV one, whose
  primary provider returns at least one usable candidate:
  \<^item> the handler of lines 916-1095 calls VixSrc and nothing else, and returns exactly the
    candidates of VixSrc;
  \<^item> the handler of lines 1687-1975 calls the enabled anime providers first and VixSrc
    last, and returns the anime candidates followed by those of VixSrc; it calls VixSrc
    alone when no anime provider is enabled.
\<close>

theorem primary_first:
  assumes "type \<noteq> ''tv''" and "is_imdb_or_tmdb ident"
    and "\<exists>st \<in> set infos. streamUrl st \<noteq> None"
  shows "(getStreamContent prov ident type
            (finalConfig configCache env (bothLinks configCache = Some ''on'')) = Inr (Some infos)
          \<longrightarrow> streamHandler P prov env configCache tvChannels ident type
                = ([VixSrc], Inr (vixStreams infos)))
       \<and> (getStreamContent prov ident type
            (finalConfig config env
               (if bothLinks config \<noteq> None then bothLinks config = Some ''on''
                else map_option toLowerCase (BOTHLINK env) = Some ''true'')) = Inr (Some infos)
          \<longrightarrow> streamHandler_merged prov env config tvChannels ident type
                = (fst (anime_block prov env config ident) @ [VixSrc],
                   Inr (snd (anime_block prov env config ident) @ vixStreams infos))
              \<and> fst (anime_block prov env config ident) =
                  (if provider_enabled (animeunityEnabled config) (ANIMEUNITY_ENABLED env)
                   then [AnimeUnity] else [])
                  @ (if provider_enabled (animesaturnEnabled config) (ANIMESATURN_ENABLED env)
                     then [AnimeSaturn] else []))"
  using primary_first_fallback [OF assms(1,2) _ assms(3)] merged_imdb_tmdb [OF assms(1,2)]
    anime_block_imdb_tmdb [OF assms(2)]
  by simp

theorem primary_first_witness:
  "''movie'' \<noteq> ''tv'' \<and> is_imdb_or_tmdb ''tt0111161''
   \<and> (\<exists>st \<in> set [example_info]. streamUrl st \<noteq> None)
   \<and> streamHandler node example_providers example_env example_config [] ''tt0111161'' ''movie''
       = ([VixSrc], Inr (vixStreams [example_info]))
   \<and> streamHandler_merged example_providers example_env example_config [] ''tt0111161'' ''movie''
       = ([AnimeUnity, AnimeSaturn, VixSrc],
          Inr (snd (anime_block example_providers example_env example_config ''tt0111161'')
               @ vixStreams [example_info]))"
proof -
  have a: "''movie'' \<noteq> ''tv''" by simp
  have b: "is_imdb_or_tmdb ''tt0111161''" by (simp add: is_imdb_or_tmdb_def startsWith_def)
  have c: "\<exists>st \<in> set [example_info]. streamUrl st \<noteq> None" by (simp add: example_info_def)
  have d: "getStreamContent example_providers ''tt0111161'' ''movie'' cfg = Inr (Some [example_info])"
    for cfg by (simp add: example_providers_def)
  show ?thesis
    using a b c
      primary_first [OF a b c, where prov = example_providers and configCache = example_config
        and env = example_env and P = node and tvChannels = "[]" and config = example_config]
    by (simp add: d example_config_def provider_enabled_def)
qed

subsection \<open>A failing provider\<close>

text \<open>
  What the handlers get right: an anime provider that throws adds nothing, and the other
  anime provider's streams are kept.
\<close>

lemma anime_provider_isolated:
  assumes "an_enabled c1" and "an_enabled c2"
  shows "AnimeUnityProvider prov c1 req = Inl e \<Longrightarrow>
           snd (anime_providers prov c1 c2 (Some req))
             = anime_streams ''StreamViX AS'' (AnimeSaturnProvider prov c2 req)"
    and "AnimeSaturnProvider prov c2 req = Inl e \<Longrightarrow>
           snd (anime_providers prov c1 c2 (Some req))
             = anime_streams ''StreamViX AU'' (AnimeUnityProvider prov c1 req)"
  using assms by (simp_all add: anime_providers_def anime_streams_def)

text \<open>
  An anime id with both providers enabled: AnimeSaturn rejects, and the stream of
  AnimeUnity is returned.
\<close>

lemma anime_provider_isolated_example: "streamHandler node example_providers example_env example_config [] ''kitsu:1'' ''series''
   = ([AnimeUnity, AnimeSaturn],
      Inr [\<lparr>stream_name = Some ''StreamViX AU'', stream_title = Some ''Episode 1'',
        stream_url = ''https://au.example/ep/1'', stream_referer = None\<rparr>])"
  by code_simp

text \<open>The handler of lines 1687-1975 never rejects.\<close>

lemma streamHandler_merged_resolves:
  "\<exists>streams. snd (streamHandler_merged prov env config tvChannels ident type) = Inr streams"
  by (cases "streamHandler_try prov env config tvChannels ident type")
     (auto simp: streamHandler_merged_def split: sum.splits)

text \<open>
  C2 fails on the primary provider. In the handler of lines 916-1095 the call of
  \<^verbatim>\<open>getStreamContent\<close> (line 1002) is in no \<^verbatim>\<open>try\<close>: when it rejects, the handler
  rejects with the same exception.
\<close>

theorem primary_rejection_escapes:
  "streamHandler node failing_primary example_env example_config [] ''tt0111161'' ''movie''
     = ([VixSrc], Inl (Rejected ''fetch failed''))"
  by (rule example_failing)

text \<open>
  In the handler of lines 1687-1975 the same rejection reaches the \<^verbatim>\<open>catch\<close> of line
  1970, which returns the empty list: the stream that AnimeUnity had returned is lost.
\<close>

lemma primary_rejection_drops_candidates:
  "streamHandler_merged failing_primary example_env example_config [] ''tt0111161'' ''movie''
     = ([AnimeUnity, AnimeSaturn, VixSrc], Inr [])
   \<and> AnimeUnityProvider failing_primary c req = Inr (Some [example_anime_stream])"
  by (simp add: example_failing_merged) (simp add: failing_primary_def example_providers_def)

subsection \<open>The trailing slash of a proxy URL\<close>

lemma normalizeProxyUrl_slash: "normalizeProxyUrl (b @ ''/'') = b"
  by (simp add: normalizeProxyUrl_def endsWith_def)

lemma normalizeProxyUrl_no_slash: "\<not> endsWith b ''/'' \<Longrightarrow> normalizeProxyUrl b = b"
  by (simp add: normalizeProxyUrl_def)

lemma endsWith_two_slashes_iff:
  "endsWith u ''//'' = (endsWith u ''/'' \<and> endsWith (butlast u) ''/'')"
proof (cases u rule: rev_cases)
  case Nil
  then show ?thesis by (simp add: endsWith_def)
next
  case (snoc v c)
  have "suffix (''/'' @ ''/'') (v @ [c]) = (suffix ''/'' v \<and> c = CHR ''/'')"
    by (simp only: snoc_suffix_snoc) auto
  then have "suffix ''//'' (v @ [c]) = (suffix ''/'' v \<and> c = CHR ''/'')"
    by simp
  then show ?thesis using snoc by (auto simp: endsWith_def)
qed

lemma normalizeProxyUrl_idem:
  "\<not> endsWith u ''//'' \<Longrightarrow> normalizeProxyUrl (normalizeProxyUrl u) = normalizeProxyUrl u"
  by (auto simp: normalizeProxyUrl_def endsWith_two_slashes_iff)

lemma truthy_Some: "truthy (Some s) = (s \<noteq> [])"
  by (simp add: truthy_def)

lemma slash_mfpProxyUrl:
  assumes "b \<noteq> []" and "\<not> endsWith b ''/''"
  shows "mfpUrl_of (config\<lparr>mfpProxyUrl := Some (b @ ''/'')\<rparr>) = mfpUrl_of (config\<lparr>mfpProxyUrl := Some b\<rparr>)"
  using assms by (simp add: mfpUrl_of_def truthy_Some or_empty_def normalizeProxyUrl_slash
        normalizeProxyUrl_no_slash)

lemma slash_mediaFlowProxyUrl:
  assumes "b \<noteq> []" and "\<not> endsWith b ''/''"
  shows "mfpUrl_of (config\<lparr>mediaFlowProxyUrl := Some (b @ ''/'')\<rparr>)
       = mfpUrl_of (config\<lparr>mediaFlowProxyUrl := Some b\<rparr>)"
  using assms by (simp add: mfpUrl_of_def truthy_Some or_empty_def normalizeProxyUrl_slash
        normalizeProxyUrl_no_slash)

lemma slash_tvProxyUrl:
  assumes "b \<noteq> []" and "\<not> endsWith b ''/''"
  shows "tvProxyUrl_of (config\<lparr>tvProxyUrl := Some (b @ ''/'')\<rparr>)
       = tvProxyUrl_of (config\<lparr>tvProxyUrl := Some b\<rparr>)"
  using assms by (simp add: tvProxyUrl_of_def truthy_Some or_empty_def normalizeProxyUrl_slash
        normalizeProxyUrl_no_slash)

lemma tv_streams_cong:
  assumes "mfpUrl_of c1 = mfpUrl_of c2" and "mfpPsw_of c1 = mfpPsw_of c2"
    and "tvProxyUrl_of c1 = tvProxyUrl_of c2"
  shows "tv_streams prov c1 cleanId channel = tv_streams prov c2 cleanId channel"
  using assms by (simp add: tv_streams_def)

lemma merged_tv:
  "streamHandler_merged prov env config tvChannels ident ''tv'' =
     (case find (\<lambda>c. channel_id c = tv_channel_id ident) tvChannels of
        None \<Rightarrow> ([], Inr [])
      | Some channel \<Rightarrow>
          (fst (tv_streams prov config (tv_channel_id ident) channel),
           Inr (snd (tv_streams prov config (tv_channel_id ident) channel))))"
  by (simp add: streamHandler_merged_def streamHandler_try_def Let_def
        split: option.splits prod.splits)

lemma merged_tv_cong:
  assumes "mfpUrl_of c1 = mfpUrl_of c2" and "mfpPsw_of c1 = mfpPsw_of c2"
    and "tvProxyUrl_of c1 = tvProxyUrl_of c2"
  shows "streamHandler_merged prov env c1 tvChannels ident ''tv''
       = streamHandler_merged prov env c2 tvChannels ident ''tv''"
  by (simp add: merged_tv tv_streams_cong [OF assms] cong: option.case_cong)

text \<open>
  C10, amended. \<^verbatim>\<open>normalizeProxyUrl\<close> removes one trailing slash and changes nothing
  else; it is idempotent on every URL that does not end in two slashes. For a non-empty
  base URL \<open>b\<close> that does not end in a slash, a live-TV request gets the same calls
  and the same streams whether a proxy setting (\<^verbatim>\<open>mfpProxyUrl\<close>, \<^verbatim>\<open>mediaFlowProxyUrl\<close>
  or \<^verbatim>\<open>tvProxyUrl\<close>) is \<open>b\<close> or \<open>b/\<close>: the live-TV branch builds every proxy URL from
  the normalised settings.
\<close>

theorem trailing_slash:
  "normalizeProxyUrl (b @ ''/'') = b
   \<and> (\<not> endsWith b ''/'' \<longrightarrow> normalizeProxyUrl b = b)
   \<and> (\<not> endsWith u ''//'' \<longrightarrow> normalizeProxyUrl (normalizeProxyUrl u) = normalizeProxyUrl u)
   \<and> (b \<noteq> [] \<and> \<not> endsWith b ''/'' \<longrightarrow>
        streamHandler_merged prov env (config\<lparr>mfpProxyUrl := Some (b @ ''/'')\<rparr>) tvChannels ident ''tv''
          = streamHandler_merged prov env (config\<lparr>mfpProxyUrl := Some b\<rparr>) tvChannels ident ''tv''
        \<and> streamHandler_merged prov env (config\<lparr>mediaFlowProxyUrl := Some (b @ ''/'')\<rparr>)
              tvChannels ident ''tv''
          = streamHandler_merged prov env (config\<lparr>mediaFlowProxyUrl := Some b\<rparr>)
              tvChannels ident ''tv''
        \<and> streamHandler_merged prov env (config\<lparr>tvProxyUrl := Some (b @ ''/'')\<rparr>) tvChannels ident ''tv''
          = streamHandler_merged prov env (config\<lparr>tvProxyUrl := Some b\<rparr>) tvChannels ident ''tv'')"
proof -
  have "streamHandler_merged prov env (config\<lparr>mfpProxyUrl := Some (b @ ''/'')\<rparr>) tvChannels ident ''tv''
          = streamHandler_merged prov env (config\<lparr>mfpProxyUrl := Some b\<rparr>) tvChannels ident ''tv''"
    if "b \<noteq> []" "\<not> endsWith b ''/''"
    by (rule merged_tv_cong)
       (simp_all add: slash_mfpProxyUrl [OF that] mfpPsw_of_def tvProxyUrl_of_def)
  moreover have "streamHandler_merged prov env (config\<lparr>mediaFlowProxyUrl := Some (b @ ''/'')\<rparr>)
              tvChannels ident ''tv''
          = streamHandler_merged prov env (config\<lparr>mediaFlowProxyUrl := Some b\<rparr>)
              tvChannels ident ''tv''"
    if "b \<noteq> []" "\<not> endsWith b ''/''"
    by (rule merged_tv_cong)
       (simp_all add: slash_mediaFlowProxyUrl [OF that] mfpPsw_of_def tvProxyUrl_of_def)
  moreover have "streamHandler_merged prov env (config\<lparr>tvProxyUrl := Some (b @ ''/'')\<rparr>) tvChannels ident ''tv''
          = streamHandler_merged prov env (config\<lparr>tvProxyUrl := Some b\<rparr>) tvChannels ident ''tv''"
    if "b \<noteq> []" "\<not> endsWith b ''/''"
    by (rule merged_tv_cong)
       (simp_all add: slash_tvProxyUrl [OF that] mfpPsw_of_def mfpUrl_of_def)
  ultimately show ?thesis
    using normalizeProxyUrl_slash [of b] normalizeProxyUrl_no_slash [of b]
      normalizeProxyUrl_idem [of u]
    by blast
qed

text \<open>
  C10, as stated: \<^verbatim>\<open>normalizeProxyUrl\<close> is idempotent. It is not, on a URL that ends in
  two slashes.
\<close>

theorem normalizeProxyUrl_idempotent_counterexample:
  "normalizeProxyUrl (normalizeProxyUrl ''http://mfp:8888//'') \<noteq> normalizeProxyUrl ''http://mfp:8888//''"
  by (simp add: normalizeProxyUrl_def endsWith_def suffix_to_prefix)

lemma example_tv_slash:
  "streamHandler_merged example_providers example_env
      (example_config\<lparr>mfpProxyUrl := Some ''http://mfp:8888''\<rparr>) example_channels
      ''tv:skysport'' ''tv''
     = ([], Inr [\<lparr>stream_name = Some ''StreamViX TV'',
                  stream_title = Some (red_circle @ '' Sky Sport (Proxy)''),
                  stream_url = ''http://mfp:8888/proxy/mpd/manifest.m3u8?api_password=s3cret!&d=https://sky.example/sport.mpd'',
                  stream_referer = None\<rparr>])"
  by code_simp

theorem trailing_slash_witness:
  "''http://mfp:8888'' \<noteq> [] \<and> \<not> endsWith ''http://mfp:8888'' ''/''
   \<and> \<not> endsWith ''http://mfp:8888/'' ''//''
   \<and> normalizeProxyUrl (''http://mfp:8888'' @ ''/'') = ''http://mfp:8888''
   \<and> normalizeProxyUrl (normalizeProxyUrl ''http://mfp:8888/'') = normalizeProxyUrl ''http://mfp:8888/''
   \<and> streamHandler_merged example_providers example_env
        (example_config\<lparr>mfpProxyUrl := Some (''http://mfp:8888'' @ ''/'')\<rparr>) example_channels
        ''tv:skysport'' ''tv''
     = ([], Inr [\<lparr>stream_name = Some ''StreamViX TV'',
                  stream_title = Some (red_circle @ '' Sky Sport (Proxy)''),
                  stream_url = ''http://mfp:8888/proxy/mpd/manifest.m3u8?api_password=s3cret!&d=https://sky.example/sport.mpd'',
                  stream_referer = None\<rparr>])"
proof -
  have a: "''http://mfp:8888'' \<noteq> []" by simp
  have b: "\<not> endsWith ''http://mfp:8888'' ''/''"
    by (simp add: endsWith_def suffix_to_prefix)
  have c: "\<not> endsWith ''http://mfp:8888/'' ''//''"
    by (simp add: endsWith_def suffix_to_prefix)
  show ?thesis
    using a b c
      trailing_slash [where b = "''http://mfp:8888''" and u = "''http://mfp:8888/''"
        and prov = example_providers and env = example_env and config = example_config
        and tvChannels = example_channels and ident = "''tv:skysport''"]
    by (simp only: example_tv_slash) simp
qed

subsection \<open>The primary static link of a channel\<close>

lemma normalizeProxyUrl_empty_iff: "(normalizeProxyUrl u = []) = (u = [] \<or> u = ''/'')"
proof (cases u rule: rev_cases)
  case Nil
  then show ?thesis by (simp add: normalizeProxyUrl_def endsWith_def)
next
  case (snoc v c)
  then show ?thesis by (auto simp: normalizeProxyUrl_def endsWith_def)
qed

text \<open>
  What the test \<^verbatim>\<open>mfpUrl && mfpPsw\<close> of the live-TV branch asks of the settings: a base
  URL under \<^verbatim>\<open>mfpProxyUrl\<close>, or under \<^verbatim>\<open>mediaFlowProxyUrl\<close> when the first is empty,
  that is more than a slash; and a password under one of its two keys.
\<close>

lemma mfpUrl_of_configured:
  "(mfpUrl_of config \<noteq> []) =
     (truthy (mfpProxyUrl config) \<and> mfpProxyUrl config \<noteq> Some ''/''
      \<or> \<not> truthy (mfpProxyUrl config) \<and> truthy (mediaFlowProxyUrl config)
          \<and> mediaFlowProxyUrl config \<noteq> Some ''/'')"
  by (cases "mfpProxyUrl config"; cases "mediaFlowProxyUrl config")
     (auto simp: mfpUrl_of_def truthy_def or_empty_def normalizeProxyUrl_empty_iff)

lemma mfpPsw_of_configured:
  "(mfpPsw_of config \<noteq> []) =
     (truthy (mfpProxyPassword config) \<or> truthy (mediaFlowProxyPassword config))"
  by (cases "mfpProxyPassword config"; cases "mediaFlowProxyPassword config")
     (auto simp: mfpPsw_of_def truthy_def or_empty_def or_else_def)


text \<open>
  The handler of lines 916-1095 has no proxy and no free-to-air test: its live-TV branch
  returns the static link as it is.
\<close>

lemma streamHandler_tv_direct:
  assumes "tv_cleanId P ident = Inr cleanId"
    and "find (\<lambda>c. channel_id c = cleanId) tvChannels = Some channel"
    and "staticUrl channel = Some link" and "link \<noteq> []"
  shows "streamHandler P prov env configCache tvChannels ident ''tv'' =
     ([], Inr [\<lparr>stream_name = None, stream_title = Some (channel_name channel),
                stream_url = link, stream_referer = None\<rparr>])"
  using assms by (simp add: streamHandler_def truthy_def or_empty_def)





text \<open>
  Every value of the four settings falls under one of two cases: a base URL that is more
  than a slash together with a password, or a base URL that is missing or a slash alone,
  or a missing password.
\<close>

lemma proxy_settings_cases:
  "(\<exists>b p. (mfpProxyUrl config = Some b
             \<or> \<not> truthy (mfpProxyUrl config) \<and> mediaFlowProxyUrl config = Some b)
          \<and> b \<noteq> [] \<and> b \<noteq> ''/''
          \<and> (mfpProxyPassword config = Some p
               \<or> \<not> truthy (mfpProxyPassword config) \<and> mediaFlowProxyPassword config = Some p)
          \<and> p \<noteq> [])
   \<or> (mfpProxyUrl config = Some ''/''
        \<or> \<not> truthy (mfpProxyUrl config)
           \<and> (\<not> truthy (mediaFlowProxyUrl config) \<or> mediaFlowProxyUrl config = Some ''/'')
        \<or> \<not> truthy (mfpProxyPassword config) \<and> \<not> truthy (mediaFlowProxyPassword config))"
proof -
  have base: "(\<exists>b. (mfpProxyUrl config = Some b
                  \<or> \<not> truthy (mfpProxyUrl config) \<and> mediaFlowProxyUrl config = Some b)
               \<and> b \<noteq> [] \<and> b \<noteq> ''/'')
      \<or> (mfpProxyUrl config = Some ''/''
           \<or> \<not> truthy (mfpProxyUrl config)
              \<and> (\<not> truthy (mediaFlowProxyUrl config) \<or> mediaFlowProxyUrl config = Some ''/''))"
    by (cases "mfpProxyUrl config"; cases "mediaFlowProxyUrl config") (auto simp: truthy_def)
  have password: "(\<exists>p. (mfpProxyPassword config = Some p
                  \<or> \<not> truthy (mfpProxyPassword config) \<and> mediaFlowProxyPassword config = Some p)
               \<and> p \<noteq> [])
      \<or> \<not> truthy (mfpProxyPassword config) \<and> \<not> truthy (mediaFlowProxyPassword config)"
    by (cases "mfpProxyPassword config"; cases "mediaFlowProxyPassword config")
       (auto simp: truthy_def)
  show ?thesis using base password by blast
qed

lemma example_tv_shadowed:
  "streamHandler_merged example_providers example_env shadowed_config example_channels
      ''tv:skysport'' ''tv''
     = ([], Inr [\<lparr>stream_name = Some ''StreamViX TV'',
                  stream_title = Some (red_circle @ '' Sky Sport (Direct)''),
                  stream_url = ''https://sky.example/sport.mpd'', stream_referer = None\<rparr>])"
  by code_simp




end
